theory Spec2Isabelle
  imports Complex_Main
begin

section \<open>Data model of the player store and the detail store\<close>

text \<open>
  The development embeds \<^verbatim>\<open>src/stores/playerStore.ts\<close>, which holds two zustand stores:
  the player store (\<^verbatim>\<open>usePlayerStore\<close>) and the detail store (\<^verbatim>\<open>useDetailStore\<close>).
  JavaScript numbers that count milliseconds of wall-clock time or of the playback position are
  integers (\<^typ>\<open>int\<close>); durations measured with \<^verbatim>\<open>performance.now()\<close> are fractional and are
  \<^typ>\<open>real\<close> (every finite double is a real number and the comparisons of the source are exact
  on doubles). An optional field (\<^verbatim>\<open>x?: T\<close>, \<^verbatim>\<open>T | null\<close>) is an \<^typ>\<open>'a option\<close>.
\<close>

text \<open>\<^verbatim>\<open>Episode\<close>. The title is the episode number \<open>index + 1\<close> set between two fixed words
  (lines 404-407 and 867-870); the model keeps the number.\<close>

record episode =
  url :: string
  ep_number :: nat

text \<open>\<^verbatim>\<open>SearchResultWithResolution\<close>: a \<^verbatim>\<open>SearchResult\<close> of the API with the three fields the
  detail store adds.\<close>

record searchResult =
  source :: string
  vid :: int
  title :: string
  source_name :: string
  poster :: string
  year :: string
  episodes :: "string list"
  resolution :: "string option"
  networkSpeed :: "real option"
  lastSpeedTest :: "int option"

text \<open>\<^verbatim>\<open>AVPlaybackStatus\<close> of the media layer. The fields after \<open>isLoaded\<close> are read by the source
  only behind a test of \<open>isLoaded\<close>; \<open>durationMillis\<close> is optional; \<open>error\<close> belongs to the
  unloaded status.\<close>

record avStatus =
  isLoaded :: bool
  isPlaying :: bool
  isBuffering :: bool
  positionMillis :: int
  durationMillis :: "int option"
  didJustFinish :: bool
  error :: "string option"

text \<open>An entry of \<^verbatim>\<open>_cachedSources\<close>: \<^verbatim>\<open>{ url, timestamp, responseTime }\<close>.\<close>

record cachedSource =
  cs_url :: string
  cs_timestamp :: int
  responseTime :: real

text \<open>
  \<^verbatim>\<open>PlayerState\<close>, the fields of the player store that the modelled functions read or write.
  The fields that only drive the user interface (\<^verbatim>\<open>videoRef\<close>, \<^verbatim>\<open>showControls\<close>, the modal flags,
  \<^verbatim>\<open>showNextEpisodeOverlay\<close>, \<^verbatim>\<open>isSeeking\<close>, \<^verbatim>\<open>seekPosition\<close>, \<^verbatim>\<open>progressPosition\<close>) are read by
  none of them and are left out. A timer handle is the number of the timer; the abort controller
  is present or absent.
\<close>

record playerState =
  currentEpisodeIndex :: int
  ps_episodes :: "episode list"
  status :: "avStatus option"
  isLoading :: bool
  initialPosition :: int
  playbackRate :: real
  introEndTime :: "int option"
  outroStartTime :: "int option"
  isUserPaused :: bool
  isRecordSaveThrottled :: bool
  bufferingStartTime :: "int option"
  bufferingTimeout :: "nat option"
  bufferingRetryCount :: nat
  preloadingEpisode :: "string option"
  preloadTestAbortController :: bool
  lastSeekTime :: "int option"
  cachedSources :: "string \<rightharpoonup> cachedSource"

text \<open>
  \<^verbatim>\<open>DetailState\<close>. The list \<^verbatim>\<open>sources\<close> is a projection of \<^verbatim>\<open>searchResults\<close> kept for display, and
  \<^verbatim>\<open>q\<close>, \<^verbatim>\<open>loading\<close>, \<^verbatim>\<open>error\<close>, \<^verbatim>\<open>allSourcesLoaded\<close> and \<^verbatim>\<open>controller\<close> are read by none of the
  modelled functions except for logging; they are left out.
\<close>

record detailState =
  searchResults :: "searchResult list"
  detail :: "searchResult option"
  failedSources :: "string set"
  isFavorited :: bool

section \<open>selectCurrentEpisode\<close>

text \<open>
  \<^verbatim>\<open>String.prototype.trim\<close> removes ECMAScript white space and line terminators from both ends.
  A \<^typ>\<open>char\<close> is read as a code unit below 256; the white space among those is TAB, LF, VT, FF,
  CR, SP and NBSP.
\<close>

definition isWhiteSpace :: "char \<Rightarrow> bool" where
  "isWhiteSpace c = (of_char c \<in> {9, 10, 11, 12, 13, 32, 160 :: nat})"

definition trim :: "string \<Rightarrow> string" where
  "trim s = rev (dropWhile isWhiteSpace (rev (dropWhile isWhiteSpace s)))"

text \<open>Reading \<^verbatim>\<open>xs[i]\<close>: JavaScript yields \<^verbatim>\<open>undefined\<close> outside the array.\<close>

definition js_index :: "'a list \<Rightarrow> int \<Rightarrow> 'a option" where
  "js_index xs i = (if 0 \<le> i \<and> i < int (length xs) then Some (xs ! nat i) else None)"

text \<open>Lines 900-926. The debug logging has no effect on the result.\<close>

definition selectCurrentEpisode :: "playerState \<Rightarrow> episode option" where
  "selectCurrentEpisode state =
     (if length (ps_episodes state) > 0 \<and>
         currentEpisodeIndex state \<ge> 0 \<and>
         currentEpisodeIndex state < int (length (ps_episodes state))
      then (case js_index (ps_episodes state) (currentEpisodeIndex state) of
              None \<Rightarrow> None
            | Some ep \<Rightarrow> if url ep \<noteq> [] \<and> trim (url ep) \<noteq> [] then Some ep else None)
      else None)"

section \<open>Source selection in the detail store\<close>

text \<open>\<^verbatim>\<open>String.prototype.includes\<close>: the needle occurs as a contiguous run.\<close>

fun str_includes :: "string \<Rightarrow> string \<Rightarrow> bool" where
  "str_includes [] needle = (needle = [])"
| "str_includes (c # cs) needle = (take (length needle) (c # cs) = needle \<or> str_includes cs needle)"

text \<open>Lines 1379-1385, applied to \<^verbatim>\<open>a.resolution || ''\<close>.\<close>

definition resolutionPriority :: "string \<Rightarrow> nat" where
  "resolutionPriority res =
     (if str_includes res ''1080'' then 4
      else if str_includes res ''720'' then 3
      else if str_includes res ''480'' then 2
      else if str_includes res ''360'' then 1
      else 0)"

text \<open>Lines 1389-1396. A measured speed is a difference of two clock readings, a finite number.\<close>

definition speedScore :: "real option \<Rightarrow> nat" where
  "speedScore speed =
     (case speed of
        None \<Rightarrow> 3
      | Some v \<Rightarrow>
          if v < 300 then 0
          else if v < 600 then 1
          else if v < 1000 then 2
          else if v < 2000 then 3
          else 4)"

subsection \<open>The score, in double precision\<close>

text \<open>
  The score is computed with JavaScript numbers, that is IEEE 754 doubles, and rounding decides
  which scores are equal. Every number that occurs is a multiple of \<open>2\<^sup>-\<^sup>5\<^sup>4\<close> between 0 and 4, so a
  double is represented by the natural number \<open>n\<close> with value \<open>n / 2\<^sup>5\<^sup>4\<close>. The literal \<^verbatim>\<open>0.6\<close> is
  the double \<open>0x3FE3333333333333\<close> and \<^verbatim>\<open>0.4\<close> is \<open>0x3FD999999999999A\<close>. An operation is the
  exact operation followed by rounding to 53 significant bits, ties to even.
\<close>

fun bitlen :: "nat \<Rightarrow> nat" where
  "bitlen n = (if n = 0 then 0 else Suc (bitlen (n div 2)))"

declare bitlen.simps [simp del]

definition round53 :: "nat \<Rightarrow> nat" where
  "round53 n =
     (if bitlen n \<le> 53 then n
      else let sh = bitlen n - 53; q = n div 2 ^ sh; r = n mod 2 ^ sh; half = 2 ^ (sh - 1)
           in (if r < half \<or> (r = half \<and> even q) then q else q + 1) * 2 ^ sh)"

definition dbl_0_6 :: nat where
  "dbl_0_6 = 10808639105689190"

definition dbl_0_4 :: nat where
  "dbl_0_4 = 7205759403792794"

text \<open>Lines 1398-1412: \<^verbatim>\<open>resolutionPriority(res) * 0.6 + (4 - speedScore(speed)) * 0.4\<close>.\<close>

definition score_of :: "nat \<Rightarrow> nat \<Rightarrow> nat" where
  "score_of priority speed =
     (let resolutionValue = round53 (priority * dbl_0_6);
          speedValue = round53 ((4 - speed) * dbl_0_4)
      in round53 (resolutionValue + speedValue))"

definition totalScore :: "searchResult \<Rightarrow> nat" where
  "totalScore a =
     score_of (resolutionPriority (case resolution a of None \<Rightarrow> [] | Some r \<Rightarrow> r))
              (speedScore (networkSpeed a))"

text \<open>Lines 1348-1353, the filter. \<^verbatim>\<open>result.episodes\<close> is an array and so always truthy.\<close>

definition availableSources :: "string \<Rightarrow> int \<Rightarrow> detailState \<Rightarrow> searchResult list" where
  "availableSources currentSource episodeIndex st =
     filter (\<lambda>result. source result \<noteq> currentSource \<and>
                      source result \<notin> failedSources st \<and>
                      int (length (episodes result)) > episodeIndex)
            (searchResults st)"

text \<open>
  Lines 1341-1425. \<^verbatim>\<open>Array.prototype.sort\<close> is stable and the comparator
  \<^verbatim>\<open>bTotalScore - aTotalScore\<close> orders by descending score, so the sorted array is the stable
  sort on the negated score. The speed measurements started in the background (lines 1366-1370)
  write to the store only after the call has returned and are not part of the result.
\<close>

definition getNextAvailableSource :: "string \<Rightarrow> int \<Rightarrow> detailState \<Rightarrow> searchResult option" where
  "getNextAvailableSource currentSource episodeIndex st =
     (let avail = availableSources currentSource episodeIndex st
      in if length avail = 0 then None
         else js_index (sort_key (\<lambda>a. - int (totalScore a)) avail) 0)"

subsection \<open>The ranking as the specification words it\<close>

text \<open>
  For comparison with the source, the ranking of section 4.2 of the specification, word for word:
  the resolution tier is \<open>4\<close>, \<open>3\<close>, \<open>2\<close>, \<open>1\<close> for 1080p, 720p, 480p, 360p and \<open>0\<close> for any other
  or unknown resolution; the latency bucket is \<open>0\<close> below 300 ms, \<open>1\<close> below 600 ms, \<open>2\<close> below
  1000 ms, \<open>3\<close> below 2000 ms and \<open>3\<close> otherwise or when unmeasured; the score is
  \<open>0.6 * resolutionTier + 0.4 * (4 - latencyBucket)\<close>, a number; the candidate with the highest
  score is returned, the earliest one among equals.
\<close>

definition spec_resolutionTier :: "string option \<Rightarrow> nat" where
  "spec_resolutionTier res =
     (if res = Some ''1080p'' then 4 else if res = Some ''720p'' then 3
      else if res = Some ''480p'' then 2 else if res = Some ''360p'' then 1 else 0)"

definition spec_latencyBucket :: "real option \<Rightarrow> nat" where
  "spec_latencyBucket speed =
     (case speed of
        None \<Rightarrow> 3
      | Some v \<Rightarrow> if v < 300 then 0 else if v < 600 then 1 else if v < 1000 then 2 else 3)"

definition spec_score :: "searchResult \<Rightarrow> real" where
  "spec_score a =
     0.6 * real (spec_resolutionTier (resolution a)) +
     0.4 * (4 - real (spec_latencyBucket (networkSpeed a)))"

fun first_max :: "('a \<Rightarrow> real) \<Rightarrow> 'a list \<Rightarrow> 'a option" where
  "first_max f [] = None"
| "first_max f (x # xs) =
     (case first_max f xs of
        None \<Rightarrow> Some x
      | Some y \<Rightarrow> if f x < f y then Some y else Some x)"

definition spec_selectFallback :: "string \<Rightarrow> int \<Rightarrow> detailState \<Rightarrow> searchResult option" where
  "spec_selectFallback excludeSourceId episodeIndex st =
     first_max spec_score (availableSources excludeSourceId episodeIndex st)"

subsection \<open>Concrete stores used in the examples\<close>

definition candidate :: "string \<Rightarrow> string list \<Rightarrow> string option \<Rightarrow> real option \<Rightarrow> searchResult" where
  "candidate src eps res speed =
     \<lparr>source = src, vid = 1, title = ''t'', source_name = src, poster = [], year = [],
      episodes = eps, resolution = res, networkSpeed = speed, lastSpeedTest = None\<rparr>"

definition store_of :: "searchResult list \<Rightarrow> searchResult option \<Rightarrow> string set \<Rightarrow> detailState" where
  "store_of rs d failed = \<lparr>searchResults = rs, detail = d, failedSources = failed, isFavorited = False\<rparr>"

definition ex_b720 :: searchResult where
  "ex_b720 = candidate ''sd'' [''http://sd/1.m3u8''] (Some ''720p'') (Some 100)"

definition ex_a1080 :: searchResult where
  "ex_a1080 = candidate ''hd'' [''http://hd/1.m3u8''] (Some ''1080p'') (Some 250)"

definition ex_current :: searchResult where
  "ex_current = candidate ''cur'' [''http://cur/1.m3u8''] None None"

definition ex_store :: detailState where
  "ex_store = store_of [ex_current, ex_b720, ex_a1080] (Some ex_current) {}"

definition ex_exhausted :: detailState where
  "ex_exhausted = store_of [ex_current, ex_b720] (Some ex_current) {''sd''}"

definition ex_slow720 :: searchResult where
  "ex_slow720 = candidate ''slow'' [''http://slow/1.m3u8''] (Some ''720p'') (Some 2500)"

definition ex_unmeasured720 :: searchResult where
  "ex_unmeasured720 = candidate ''new'' [''http://new/1.m3u8''] (Some ''720p'') None"

definition ex_slow_store :: detailState where
  "ex_slow_store = store_of [ex_current, ex_slow720, ex_unmeasured720] (Some ex_current) {}"

definition ex_720_1500 :: searchResult where
  "ex_720_1500 = candidate ''mid'' [''http://mid/1.m3u8''] (Some ''720p'') (Some 1500)"

definition ex_360_100 :: searchResult where
  "ex_360_100 = candidate ''low'' [''http://low/1.m3u8''] (Some ''360p'') (Some 100)"

definition ex_tie_store :: detailState where
  "ex_tie_store = store_of [ex_current, ex_720_1500, ex_360_100] (Some ex_current) {}"

definition ex_hls :: searchResult where
  "ex_hls = candidate ''hls'' [''http://hls/1.m3u8''] (Some ''1920x1080'') None"

definition ex_hls_store :: detailState where
  "ex_hls_store = store_of [ex_current, ex_unmeasured720, ex_hls] (Some ex_current) {}"

text \<open>The score of lines 1403-1412 in exact arithmetic, with the buckets of the source.\<close>

definition exactScore :: "searchResult \<Rightarrow> real" where
  "exactScore a =
     0.6 * real (resolutionPriority (case resolution a of None \<Rightarrow> [] | Some r \<Rightarrow> r)) +
     0.4 * (4 - real (speedScore (networkSpeed a)))"

section \<open>Mutations of the detail store\<close>

text \<open>The result of awaiting a promise of a collaborator that is not part of the sources
  (network, storage): it resolves with a value or it rejects.\<close>

datatype 'a promise = Rejected | Resolved 'a

text \<open>Lines 1283-1292. The reason is only logged.\<close>

definition markSourceAsFailed :: "string \<Rightarrow> detailState \<Rightarrow> detailState" where
  "markSourceAsFailed src st = st\<lparr>failedSources := insert src (failedSources st)\<rparr>"

text \<open>
  Lines 1253-1258. \<^verbatim>\<open>set({ detail })\<close> runs before the favourite lookup is awaited; when
  \<^verbatim>\<open>FavoriteManager.isFavorited\<close> rejects, \<^verbatim>\<open>setDetail\<close> rejects with \<open>detail\<close> already replaced.
  The second component tells whether \<^verbatim>\<open>setDetail\<close> resolved.
\<close>

definition setDetail :: "searchResult \<Rightarrow> bool promise \<Rightarrow> detailState \<Rightarrow> detailState \<times> bool" where
  "setDetail d favourite st =
     (case favourite of
        Rejected \<Rightarrow> (st\<lparr>detail := Some d\<rparr>, False)
      | Resolved b \<Rightarrow> (st\<lparr>detail := Some d, isFavorited := b\<rparr>, True))"

text \<open>
  Lines 1003-1046, \<^verbatim>\<open>processAndSetResults\<close> inside \<^verbatim>\<open>init\<close>. \<^verbatim>\<open>getResolutionFromM3U8\<close> belongs to
  a module outside the sources and is a parameter: it yields the resolution of a url, or nothing
  when it throws or detects none. \<open>aborted\<close> is the value of \<^verbatim>\<open>signal.aborted\<close> after the
  resolutions have been awaited. The update itself is one atomic \<^verbatim>\<open>set\<close>.
\<close>

definition attachResolution :: "(string \<Rightarrow> string option) \<Rightarrow> searchResult \<Rightarrow> searchResult" where
  "attachResolution getResolutionFromM3U8 searchResult =
     searchResult\<lparr>resolution :=
       (if length (episodes searchResult) > 0
        then getResolutionFromM3U8 (episodes searchResult ! 0) else None)\<rparr>"

definition processAndSetResults ::
  "(string \<Rightarrow> string option) \<Rightarrow> bool \<Rightarrow> searchResult list \<Rightarrow> bool \<Rightarrow> detailState \<Rightarrow> detailState" where
  "processAndSetResults getResolutionFromM3U8 aborted results merge st =
     (let resultsWithResolution = map (attachResolution getResolutionFromM3U8) results
      in if aborted then st
         else
           let existingSources = set (map source (searchResults st));
               newResults = filter (\<lambda>r. source r \<notin> existingSources) resultsWithResolution;
               finalResults = (if merge then searchResults st @ newResults else resultsWithResolution)
           in st\<lparr>searchResults := finalResults,
                 detail := (case detail st of Some d \<Rightarrow> Some d | None \<Rightarrow> js_index finalResults 0)\<rparr>)"

text \<open>
  Lines 980-1251, \<^verbatim>\<open>init\<close>. It clears \<open>searchResults\<close> and \<open>detail\<close>, then calls
  \<^verbatim>\<open>processAndSetResults\<close> once for every answer of a backend that holds a result: with
  \<open>merge = false\<close> for the preferred source or the fallback search, with \<open>merge = true\<close> for the
  background search and for each source of the standard search. Which answers arrive, and in
  which order, is decided by the network; the model takes the list of calls as a parameter, each
  with its results, its merge flag and its \<^verbatim>\<open>signal.aborted\<close>. It ends with the favourite lookup
  for the detail (a rejection is swallowed, line 1224). \<open>failedSources\<close> is not reset.
\<close>

record mergeCall =
  mc_results :: "searchResult list"
  mc_merge :: bool
  mc_aborted :: bool

definition runMerges :: "(string \<Rightarrow> string option) \<Rightarrow> mergeCall list \<Rightarrow> detailState \<Rightarrow> detailState" where
  "runMerges getResolutionFromM3U8 calls st =
     fold (\<lambda>c. processAndSetResults getResolutionFromM3U8 (mc_aborted c) (mc_results c) (mc_merge c))
          calls st"

definition init ::
  "(string \<Rightarrow> string option) \<Rightarrow> mergeCall list \<Rightarrow> bool promise \<Rightarrow> detailState \<Rightarrow> detailState" where
  "init getResolutionFromM3U8 calls favourite st =
     (let st1 = runMerges getResolutionFromM3U8 calls (st\<lparr>searchResults := [], detail := None\<rparr>)
      in case (detail st1, favourite) of
           (Some d, Resolved b) \<Rightarrow> st1\<lparr>isFavorited := b\<rparr>
         | _ \<Rightarrow> st1)"

text \<open>Line 1430, \<^verbatim>\<open>episodesSelectorBySource\<close>.\<close>

definition episodesSelectorBySource :: "string \<Rightarrow> detailState \<Rightarrow> string list" where
  "episodesSelectorBySource src st =
     (case find (\<lambda>r. source r = src) (searchResults st) of
        Some r \<Rightarrow> episodes r
      | None \<Rightarrow> [])"

section \<open>Probing a stream url\<close>

text \<open>
  Lines 111-216, \<^verbatim>\<open>_preloadAndTestSource\<close>. The network is a parameter: the fetch (raced against
  the 7 second timeout) either rejects, or resolves with an HTTP status, and \<open>responseTime\<close> is
  the time measured from the start of the call to the response. \<open>now\<close> is \<^verbatim>\<open>Date.now()\<close> at the
  start of the call. The result is the verdict, the new player state and the list of the urls
  fetched by the call. Calls run one after another; aborting the controller of an earlier call
  (lines 128-130) therefore has nothing left to cancel and shows only in the flag.
\<close>

record fetchResponse =
  fr_status :: nat
  fr_responseTime :: real

definition response_ok :: "fetchResponse \<Rightarrow> bool" where
  "response_ok r = (200 \<le> fr_status r \<and> fr_status r \<le> 299)"

definition endsWith :: "string \<Rightarrow> string \<Rightarrow> bool" where
  "endsWith s suffix = (length suffix \<le> length s \<and> drop (length s - length suffix) s = suffix)"

definition cacheResult :: "string \<Rightarrow> int \<Rightarrow> real \<Rightarrow> playerState \<Rightarrow> playerState" where
  "cacheResult u now rt st =
     st\<lparr>cachedSources := (cachedSources st)(u \<mapsto> \<lparr>cs_url = u, cs_timestamp = now, responseTime = rt\<rparr>)\<rparr>"

definition fetchAndTest ::
  "string \<Rightarrow> int \<Rightarrow> fetchResponse promise \<Rightarrow> playerState \<Rightarrow> bool \<times> playerState \<times> string list" where
  "fetchAndTest u now fetched st =
     (let st1 = st\<lparr>preloadTestAbortController := True\<rparr>;
          (verdict, st2) =
            (case fetched of
               Rejected \<Rightarrow> (False, st1)
             | Resolved response \<Rightarrow>
                 if endsWith u ''.m3u8'' then
                   (if \<not> response_ok response then (False, st1)
                    else (fr_responseTime response < 4000,
                          cacheResult u now (fr_responseTime response) st1))
                 else
                   (if \<not> response_ok response \<and> fr_status response \<noteq> 206 then (False, st1)
                    else (fr_responseTime response < 4000,
                          cacheResult u now (fr_responseTime response) st1)))
      in (verdict, st2\<lparr>preloadTestAbortController := False\<rparr>, [u]))"

definition preloadAndTestSource ::
  "string \<Rightarrow> int \<Rightarrow> fetchResponse promise \<Rightarrow> playerState \<Rightarrow> bool \<times> playerState \<times> string list" where
  "preloadAndTestSource u now fetched st =
     (case cachedSources st u of
        Some cachedSource \<Rightarrow>
          if now - cs_timestamp cachedSource < 5 * 60 * 1000
          then (responseTime cachedSource < 3000, st, [])
          else fetchAndTest u now fetched st
      | None \<Rightarrow> fetchAndTest u now fetched st)"

text \<open>Two calls for the same url, the second on the state the first one left.\<close>

definition probeTwice ::
  "string \<Rightarrow> int \<Rightarrow> fetchResponse promise \<Rightarrow> int \<Rightarrow> fetchResponse promise \<Rightarrow> playerState \<Rightarrow>
     bool \<times> bool \<times> string list" where
  "probeTwice u now1 fetched1 now2 fetched2 st =
     (let (verdict1, st1, urls1) = preloadAndTestSource u now1 fetched1 st;
          (verdict2, st2, urls2) = preloadAndTestSource u now2 fetched2 st1
      in (verdict1, verdict2, urls1 @ urls2))"

definition fresh_player :: playerState where
  "fresh_player =
     \<lparr>currentEpisodeIndex = -1, ps_episodes = [], status = None, isLoading = True,
      initialPosition = 0, playbackRate = 1, introEndTime = None, outroStartTime = None,
      isUserPaused = False, isRecordSaveThrottled = False, bufferingStartTime = None,
      bufferingTimeout = None, bufferingRetryCount = 0, preloadingEpisode = None,
      preloadTestAbortController = False, lastSeekTime = None, cachedSources = Map.empty\<rparr>"

definition ex_title_a :: searchResult where
  "ex_title_a = (candidate ''a'' [''http://a/matrix/1.m3u8''] None None)\<lparr>vid := 1, title := ''Matrix''\<rparr>"

definition ex_title_b :: searchResult where
  "ex_title_b = (candidate ''a'' [''http://a/reloaded/1.m3u8''] None None)\<lparr>vid := 2, title := ''Matrix Reloaded''\<rparr>"

definition ex_answer :: mergeCall where
  "ex_answer = \<lparr>mc_results = [ex_title_a, ex_title_b], mc_merge = True, mc_aborted = False\<rparr>"

definition ex_answers :: "mergeCall list" where
  "ex_answers =
     [\<lparr>mc_results = [ex_b720], mc_merge = False, mc_aborted = False\<rparr>,
      \<lparr>mc_results = [ex_b720, ex_a1080], mc_merge = True, mc_aborted = False\<rparr>]"

definition ex_mp4 :: string where
  "ex_mp4 = ''http://cdn/video.mp4''"

section \<open>The application state\<close>

text \<open>
  Both stores, the persistent storage, the pending timers of the event loop and the trace of the
  effects on the collaborators. A function of the source becomes a function on \<open>world\<close>; what a
  collaborator answers (network, storage, the media layer) is a parameter of the function. An
  \<^verbatim>\<open>async\<close> function is modelled as running to its end without another event in between.
\<close>

datatype errorType = SSL | Network | Other

text \<open>The three calls of \<^verbatim>\<open>Toast.show\<close> in the modelled functions: lines 849-853 (error, every
  source is unavailable), lines 882-886 (success, with the name of the new source) and line 447
  (error, replay failed).\<close>

datatype toast = ToastAllSourcesUnavailable | ToastSourceSwitched string | ToastReplayFailed

text \<open>\<open>HandleVideoError\<close> marks the entry of \<^verbatim>\<open>handleVideoError\<close> (its log line 824); the other
  effects are calls of the toast layer, the media layer and the network.\<close>

datatype effect =
    HandleVideoError errorType string
  | ToastShow toast
  | SetPositionAsync int
  | ReplayAsync
  | Fetch string

text \<open>\<^verbatim>\<open>PlayRecord\<close>, as \<^verbatim>\<open>_savePlayRecord\<close> builds it (lines 570-581).\<close>

record playRecord =
  pr_title :: string
  pr_cover :: string
  pr_index :: int
  pr_total_episodes :: nat
  pr_play_time :: int
  pr_total_time :: int
  pr_source_name :: string
  pr_year :: string
  pr_introEndTime :: "int option"
  pr_outroStartTime :: "int option"

record playerSettingsRec =
  set_playbackRate :: "real option"
  set_introEndTime :: "int option"
  set_outroStartTime :: "int option"

text \<open>A pending \<^verbatim>\<open>setTimeout\<close>: the buffering timer with the values its closure captured
  (\<^verbatim>\<open>now\<close>, \<^verbatim>\<open>detail\<close>, \<^verbatim>\<open>currentEpisodeIndex\<close>), the release of the save throttle, and the
  preload of the next episode with the episode index it captured.\<close>

datatype timerTask =
    BufferingTimeout int "searchResult option" int
  | ThrottleRelease
  | PreloadNextEpisode string int

record timerEntry =
  tm_id :: nat
  tm_due :: int
  tm_task :: timerTask

record world =
  player :: playerState
  detailStore :: detailState
  playRecords :: "string \<times> int \<rightharpoonup> playRecord"
  playerSettings :: "string \<times> int \<rightharpoonup> playerSettingsRec"
  timers :: "timerEntry list"
  nextTimerId :: nat
  effects :: "effect list"

definition emit :: "effect \<Rightarrow> world \<Rightarrow> world" where
  "emit e w = w\<lparr>effects := effects w @ [e]\<rparr>"

definition setLoading :: "bool \<Rightarrow> world \<Rightarrow> world" where
  "setLoading b w = w\<lparr>player := (player w)\<lparr>isLoading := b\<rparr>\<rparr>"

text \<open>\<^verbatim>\<open>setTimeout(task, delay)\<close> at time \<open>now\<close>, returning the handle; \<^verbatim>\<open>clearTimeout\<close>.\<close>

definition setTimeout :: "timerTask \<Rightarrow> int \<Rightarrow> int \<Rightarrow> world \<Rightarrow> world \<times> nat" where
  "setTimeout task delay now w =
     (w\<lparr>timers := timers w @ [\<lparr>tm_id = nextTimerId w, tm_due = now + delay, tm_task = task\<rparr>],
        nextTimerId := nextTimerId w + 1\<rparr>,
      nextTimerId w)"

definition clearTimeout :: "nat \<Rightarrow> world \<Rightarrow> world" where
  "clearTimeout h w = w\<lparr>timers := filter (\<lambda>t. tm_id t \<noteq> h) (timers w)\<rparr>"

text \<open>Lines 404-407 and 867-870: the episode list of the player from the urls of a source.\<close>

definition mapEpisodes :: "string list \<Rightarrow> episode list" where
  "mapEpisodes eps = map (\<lambda>(ep, index). \<lparr>url = ep, ep_number = index + 1\<rparr>) (zip eps [0..<length eps])"

section \<open>Failover\<close>

text \<open>
  Lines 822-895, \<^verbatim>\<open>handleVideoError\<close>. \<open>favourite\<close> is the answer of
  \<^verbatim>\<open>FavoriteManager.isFavorited\<close> inside \<^verbatim>\<open>setDetail\<close>; a rejection is caught at line 891.
  With a negative episode index \<^verbatim>\<open>newEpisodes[currentEpisodeIndex]\<close> is undefined and line 880
  throws after the state has been set at line 872; the catch branch then sets \<open>isLoading\<close> once
  more and the success toast is not shown.
\<close>

definition handleVideoError :: "errorType \<Rightarrow> string \<Rightarrow> bool promise \<Rightarrow> world \<Rightarrow> world" where
  "handleVideoError errorType failedUrl favourite w0 =
     (let w = emit (HandleVideoError errorType failedUrl) w0;
          episodeIndex = currentEpisodeIndex (player w);
          currentPosition =
            (case status (player w) of
               Some s \<Rightarrow> if isLoaded s \<and> positionMillis s \<noteq> 0 then positionMillis s else 0
             | None \<Rightarrow> 0)
      in case detail (detailStore w) of
           None \<Rightarrow> setLoading False w
         | Some d \<Rightarrow>
             let currentSource = source d;
                 w1 = w\<lparr>detailStore := markSourceAsFailed currentSource (detailStore w)\<rparr>
             in case getNextAvailableSource currentSource episodeIndex (detailStore w1) of
                  None \<Rightarrow> setLoading False (emit (ToastShow ToastAllSourcesUnavailable) w1)
                | Some fallbackSource \<Rightarrow>
                    let (st2, resolved) = setDetail fallbackSource favourite (detailStore w1);
                        w2 = w1\<lparr>detailStore := st2\<rparr>;
                        newEpisodes = episodes fallbackSource
                    in if \<not> resolved then setLoading False w2
                       else if int (length newEpisodes) > episodeIndex then
                         let w3 = w2\<lparr>player := (player w2)\<lparr>ps_episodes := mapEpisodes newEpisodes,
                                                             initialPosition := currentPosition,
                                                             isLoading := False\<rparr>\<rparr>
                         in if episodeIndex < 0 then setLoading False w3
                            else emit (ToastShow (ToastSourceSwitched (source_name fallbackSource))) w3
                       else setLoading False w2)"

section \<open>Saving and restoring the play record\<close>

text \<open>
  Modelled from the spec: \<^verbatim>\<open>PlayRecordManager\<close> and \<^verbatim>\<open>PlayerSettingsManager\<close> of
  \<^verbatim>\<open>@/services/storage\<close> are not among the sources. Section 6 of the specification gives their
  contract, \<^verbatim>\<open>get/save(sourceId, titleId, record)\<close>: a store of records keyed by source and title
  id, where \<open>get\<close> returns what \<open>save\<close> stored under the key. The title id is the number
  \<^verbatim>\<open>detail.id\<close> (its decimal string in the source).
\<close>

definition PlayRecordManager_save :: "string \<Rightarrow> int \<Rightarrow> playRecord \<Rightarrow> world \<Rightarrow> world" where
  "PlayRecordManager_save src ident r w = w\<lparr>playRecords := (playRecords w)((src, ident) \<mapsto> r)\<rparr>"

definition PlayRecordManager_get :: "string \<Rightarrow> int \<Rightarrow> world \<Rightarrow> playRecord option" where
  "PlayRecordManager_get src ident w = playRecords w (src, ident)"

definition PlayerSettingsManager_get :: "string \<Rightarrow> int \<Rightarrow> world \<Rightarrow> playerSettingsRec option" where
  "PlayerSettingsManager_get src ident w = playerSettings w (src, ident)"

text \<open>\<^verbatim>\<open>a || b\<close> on optional numbers: \<open>a\<close> when it is defined and not zero, else \<open>b\<close>.\<close>

definition js_or :: "('a::zero) option \<Rightarrow> 'a option \<Rightarrow> 'a option" where
  "js_or a b = (case a of Some v \<Rightarrow> if v \<noteq> 0 then Some v else b | None \<Rightarrow> b)"

text \<open>The \<^verbatim>\<open>updates\<close> argument of \<^verbatim>\<open>_savePlayRecord\<close>. Its callers pass no key, \<^verbatim>\<open>introEndTime\<close> or
  \<^verbatim>\<open>outroStartTime\<close> (lines 506, 515, 532, 542, 728); a key that is present overrides the field,
  also with \<^verbatim>\<open>undefined\<close>.\<close>

record recordUpdates =
  up_introEndTime :: "int option option"
  up_outroStartTime :: "int option option"

definition noUpdates :: recordUpdates where
  "noUpdates = \<lparr>up_introEndTime = None, up_outroStartTime = None\<rparr>"

text \<open>Lines 551-583, \<^verbatim>\<open>_savePlayRecord\<close>, called at time \<open>now\<close>. \<^verbatim>\<open>Math.floor(x / 1000)\<close> on an
  integer number of milliseconds is \<open>x div 1000\<close>.\<close>

definition savePlayRecord :: "recordUpdates \<Rightarrow> bool \<Rightarrow> int \<Rightarrow> world \<Rightarrow> world" where
  "savePlayRecord updates immediate now w =
     (if \<not> immediate \<and> isRecordSaveThrottled (player w) then w
      else
        let w1 = (if \<not> immediate
                  then fst (setTimeout ThrottleRelease 10000 now
                              (w\<lparr>player := (player w)\<lparr>isRecordSaveThrottled := True\<rparr>\<rparr>))
                  else w)
        in case (detail (detailStore w1), status (player w1)) of
             (Some d, Some s) \<Rightarrow>
               if isLoaded s then
                 PlayRecordManager_save (source d) (vid d)
                   \<lparr>pr_title = title d,
                    pr_cover = poster d,
                    pr_index = currentEpisodeIndex (player w1) + 1,
                    pr_total_episodes = length (ps_episodes (player w1)),
                    pr_play_time = positionMillis s div 1000,
                    pr_total_time =
                      (case durationMillis s of
                         Some dur \<Rightarrow> if dur \<noteq> 0 then dur div 1000 else 0
                       | None \<Rightarrow> 0),
                    pr_source_name = source_name d,
                    pr_year = year d,
                    pr_introEndTime =
                      (case up_introEndTime updates of
                         Some v \<Rightarrow> v | None \<Rightarrow> introEndTime (player w1)),
                    pr_outroStartTime =
                      (case up_outroStartTime updates of
                         Some v \<Rightarrow> v | None \<Rightarrow> outroStartTime (player w1))\<rparr>
                   w1
               else w1
           | _ \<Rightarrow> w1)"

section \<open>loadVideo\<close>

record loadVideoOptions =
  lv_source :: string
  lv_id :: string
  lv_title :: string
  lv_episodeIndex :: int
  lv_position :: "int option"

text \<open>
  What the collaborators answer during one call of \<^verbatim>\<open>loadVideo\<close>: the resolution detection and
  the calls of \<^verbatim>\<open>processAndSetResults\<close> inside \<^verbatim>\<open>init\<close> with its favourite lookup; the time and the
  fetch of the probe of the current source and of the probe of the fallback; the favourite lookup
  of \<^verbatim>\<open>setDetail\<close>; the time at which the preload of the next episode is scheduled; and whether
  the two storage reads succeed.
\<close>

record loadVideoEnv =
  env_getResolution :: "string \<Rightarrow> string option"
  env_initCalls :: "mergeCall list"
  env_initFavourite :: "bool promise"
  env_now1 :: int
  env_fetch1 :: "fetchResponse promise"
  env_now2 :: int
  env_fetch2 :: "fetchResponse promise"
  env_setDetailFavourite :: "bool promise"
  env_now3 :: int
  env_storageOk :: bool

text \<open>
  Lines 218-322: settle on a detail and its episode urls. The result is the new world and the
  local variables \<^verbatim>\<open>detail\<close> and \<^verbatim>\<open>episodes\<close>, or nothing when \<^verbatim>\<open>loadVideo\<close> returns early.
\<close>

definition loadVideo_resolve ::
  "loadVideoOptions \<Rightarrow> loadVideoEnv \<Rightarrow> world \<Rightarrow> world \<times> (searchResult \<times> string list) option" where
  "loadVideo_resolve opts env w =
     (let st = detailStore w;
          episodes0 =
            (case detail st of
               Some d \<Rightarrow> if source d \<noteq> [] then episodesSelectorBySource (source d) st
                         else episodesSelectorBySource (lv_source opts) st
             | None \<Rightarrow> episodesSelectorBySource (lv_source opts) st);
          w1 = setLoading True w;
          needsDetailInit =
            (case detail st of
               None \<Rightarrow> True
             | Some d \<Rightarrow> length episodes0 = 0 \<or> title d \<noteq> lv_title opts)
      in if needsDetailInit then
           let st' = init (env_getResolution env) (env_initCalls env) (env_initFavourite env) st;
               w2 = w1\<lparr>detailStore := st'\<rparr>
           in case detail st' of
                None \<Rightarrow> (setLoading False w2, None)
              | Some d \<Rightarrow>
                  let eps = episodesSelectorBySource (source d) st'
                  in if length eps = 0 then
                       (case find (\<lambda>r. length (episodes r) > 0) (searchResults st') of
                          Some sourceWithEpisodes \<Rightarrow>
                            (w2, Some (sourceWithEpisodes, episodes sourceWithEpisodes))
                        | None \<Rightarrow> (setLoading False w2, None))
                     else (w2, Some (d, eps))
         else
           (case detail st of
              None \<Rightarrow> (setLoading False w1, None)
            | Some d \<Rightarrow>
                let eps =
                      (if source d \<noteq> [] \<and> source d \<noteq> lv_source opts then
                         (let eps1 = episodesSelectorBySource (source d) st
                          in if length eps1 = 0 then episodesSelectorBySource (lv_source opts) st
                             else eps1)
                       else episodes0)
                in if length eps = 0 then (setLoading False w1, None) else (w1, Some (d, eps))))"

text \<open>
  Lines 324-383: probe the episode url and, when the probe fails, try the next available
  source. The result carries the local variables \<^verbatim>\<open>detail\<close> and \<^verbatim>\<open>episodes\<close> as the stage leaves
  them, or nothing when line 327 throws because \<^verbatim>\<open>episodes[episodeIndex]\<close> is undefined (a
  negative index).
\<close>

definition loadVideo_preload ::
  "loadVideoOptions \<Rightarrow> loadVideoEnv \<Rightarrow> searchResult \<Rightarrow> string list \<Rightarrow> world \<Rightarrow>
     world \<times> (searchResult \<times> string list) option" where
  "loadVideo_preload opts env d eps w =
     (let episodeIndex = lv_episodeIndex opts
      in if int (length eps) > episodeIndex then
           (case js_index eps episodeIndex of
              None \<Rightarrow> (w, None)
            | Some episodeUrl \<Rightarrow>
                if preloadingEpisode (player w) \<noteq> Some episodeUrl then
                  let p1 = (player w)\<lparr>preloadingEpisode := Some episodeUrl\<rparr>;
                      (isSourceGood, p2, urls1) =
                        preloadAndTestSource episodeUrl (env_now1 env) (env_fetch1 env) p1;
                      w2 = w\<lparr>player := p2, effects := effects w @ map Fetch urls1\<rparr>;
                      (w3, d3, eps3, completed) =
                        (if \<not> isSourceGood then
                           (case getNextAvailableSource (source d) episodeIndex (detailStore w2) of
                              None \<Rightarrow> (w2, d, eps, True)
                            | Some fallbackSource \<Rightarrow>
                                if int (length (episodes fallbackSource)) > episodeIndex then
                                  let fallbackUrl = episodes fallbackSource ! nat episodeIndex;
                                      (isFallbackGood, p3, urls2) =
                                        preloadAndTestSource fallbackUrl (env_now2 env) (env_fetch2 env)
                                          (player w2);
                                      w2' = w2\<lparr>player := p3, effects := effects w2 @ map Fetch urls2\<rparr>
                                  in if isFallbackGood then
                                       let (st', resolved) =
                                             setDetail fallbackSource (env_setDetailFavourite env)
                                               (detailStore w2')
                                       in if resolved then
                                            (w2'\<lparr>detailStore :=
                                                   markSourceAsFailed (source fallbackSource) st'\<rparr>,
                                             fallbackSource, episodes fallbackSource, True)
                                          else (w2'\<lparr>detailStore := st'\<rparr>, d, eps, False)
                                     else (w2', d, eps, True)
                                else (w2, d, eps, True))
                         else (w2, d, eps, True));
                      w4 = (if completed \<and> int (length eps3) > episodeIndex + 1
                            then fst (setTimeout
                                        (PreloadNextEpisode (eps3 ! nat (episodeIndex + 1)) episodeIndex)
                                        1000 (env_now3 env) w3)
                            else w3)
                  in (w4\<lparr>player := (player w4)\<lparr>preloadingEpisode := None\<rparr>\<rparr>, Some (d3, eps3))
                else (w, Some (d, eps)))
         else (w, Some (d, eps)))"

text \<open>Lines 387-430: read the play record and the player settings of the detail and set the
  player state. A storage read that fails is caught at line 424.\<close>

definition loadVideo_restore ::
  "loadVideoOptions \<Rightarrow> loadVideoEnv \<Rightarrow> searchResult \<Rightarrow> string list \<Rightarrow> world \<Rightarrow> world" where
  "loadVideo_restore opts env d eps w =
     (if \<not> env_storageOk env then setLoading False w
      else
        let playRecord = PlayRecordManager_get (source d) (vid d) w;
            settings = PlayerSettingsManager_get (source d) (vid d) w;
            initialPositionFromRecord =
              (case playRecord of
                 Some r \<Rightarrow> if pr_play_time r \<noteq> 0 then pr_play_time r * 1000 else 0
               | None \<Rightarrow> 0);
            savedPlaybackRate =
              (case js_or (case settings of Some s \<Rightarrow> set_playbackRate s | None \<Rightarrow> None) (Some 1) of
                 Some rate \<Rightarrow> rate | None \<Rightarrow> 1)
        in w\<lparr>player := (player w)
              \<lparr>isLoading := False,
               currentEpisodeIndex := lv_episodeIndex opts,
               initialPosition :=
                 (case js_or (lv_position opts) (Some initialPositionFromRecord) of
                    Some p \<Rightarrow> p | None \<Rightarrow> 0),
               playbackRate := savedPlaybackRate,
               ps_episodes := mapEpisodes eps,
               introEndTime :=
                 js_or (case playRecord of Some r \<Rightarrow> pr_introEndTime r | None \<Rightarrow> None)
                       (case settings of Some s \<Rightarrow> set_introEndTime s | None \<Rightarrow> None),
               outroStartTime :=
                 js_or (case playRecord of Some r \<Rightarrow> pr_outroStartTime r | None \<Rightarrow> None)
                       (case settings of Some s \<Rightarrow> set_outroStartTime s | None \<Rightarrow> None)\<rparr>\<rparr>)"

text \<open>Lines 218-431, \<^verbatim>\<open>loadVideo\<close>. The second component tells whether the promise resolved
  (it rejects when line 327 throws).\<close>

definition loadVideo :: "loadVideoOptions \<Rightarrow> loadVideoEnv \<Rightarrow> world \<Rightarrow> world \<times> bool" where
  "loadVideo opts env w =
     (case loadVideo_resolve opts env w of
        (w1, None) \<Rightarrow> (w1, True)
      | (w1, Some (d, eps)) \<Rightarrow>
          (case loadVideo_preload opts env d eps w1 of
             (w2, None) \<Rightarrow> (w2, False)
           | (w2, Some (d2, eps2)) \<Rightarrow> (loadVideo_restore opts env d2 eps2 w2, True)))"

section \<open>Status ticks of the media layer\<close>

text \<open>
  What the collaborators answer while one tick or one timer is handled: the favourite lookup of
  \<^verbatim>\<open>setDetail\<close> (inside \<^verbatim>\<open>handleVideoError\<close>), whether \<^verbatim>\<open>replayAsync\<close> succeeds (inside
  \<^verbatim>\<open>playEpisode\<close>), and the fetch of a probe.
\<close>

record tickEnv =
  te_favourite :: "bool promise"
  te_replayOk :: bool
  te_fetch :: "fetchResponse promise"

text \<open>A truthy optional number: defined and not zero. A timer handle is never zero, so a stored
  handle is truthy.\<close>

definition truthy :: "int option \<Rightarrow> bool" where
  "truthy x = (case x of Some v \<Rightarrow> v \<noteq> 0 | None \<Rightarrow> False)"

text \<open>Lines 433-450, \<^verbatim>\<open>playEpisode\<close>.\<close>

definition playEpisode :: "int \<Rightarrow> bool \<Rightarrow> world \<Rightarrow> world" where
  "playEpisode index replayOk w =
     (if index \<ge> 0 \<and> index < int (length (ps_episodes (player w))) then
        let w1 = emit ReplayAsync
                   (w\<lparr>player := (player w)\<lparr>currentEpisodeIndex := index, initialPosition := 0\<rparr>\<rparr>)
        in if replayOk then w1 else emit (ToastShow ToastReplayFailed) w1
      else w)"

text \<open>
  Lines 590-693, the buffering detection of \<^verbatim>\<open>handlePlaybackStatusUpdate\<close> for a loaded status.
  \<open>p0\<close> and \<open>detail0\<close> are the player state and the detail read at the start of the handler
  (line 586-587).
\<close>

definition isRecentlySeeked :: "int option \<Rightarrow> int \<Rightarrow> int \<Rightarrow> bool" where
  "isRecentlySeeked seekTime now window =
     (case seekTime of Some t \<Rightarrow> t \<noteq> 0 \<and> now - t < window | None \<Rightarrow> False)"

definition detectBuffering :: "avStatus \<Rightarrow> int \<Rightarrow> playerState \<Rightarrow> searchResult option \<Rightarrow> world \<Rightarrow> world" where
  "detectBuffering newStatus now p0 detail0 w =
     (let w1 = (if isPlaying newStatus \<and> isUserPaused p0
                then w\<lparr>player := (player w)\<lparr>isUserPaused := False\<rparr>\<rparr> else w);
          buffering =
            (isLoaded newStatus \<and> \<not> isPlaying newStatus \<and> \<not> isUserPaused p0 \<and>
             \<not> isRecentlySeeked (lastSeekTime p0) now 10000 \<and>
             positionMillis newStatus > 0 \<and>
             (case durationMillis newStatus of Some d \<Rightarrow> d > 0 | None \<Rightarrow> False) \<and>
             isBuffering newStatus)
      in if buffering then
           (if \<not> truthy (bufferingStartTime p0) then
              let w2 = w1\<lparr>player := (player w1)\<lparr>bufferingStartTime := Some now,
                                                  bufferingRetryCount := 0\<rparr>\<rparr>;
                  (w3, timeoutId) =
                    setTimeout (BufferingTimeout now detail0 (currentEpisodeIndex p0)) 20000 now w2
              in w3\<lparr>player := (player w3)\<lparr>bufferingTimeout := Some timeoutId\<rparr>\<rparr>
            else w1)
         else
           let w2 = (if truthy (bufferingStartTime p0)
                     then w1\<lparr>player := (player w1)\<lparr>bufferingStartTime := None,
                                                       bufferingRetryCount := 0\<rparr>\<rparr>
                     else w1)
           in case bufferingTimeout p0 of
                Some h \<Rightarrow> (clearTimeout h w2)\<lparr>player := (player w2)\<lparr>bufferingTimeout := None\<rparr>\<rparr>
              | None \<Rightarrow> w2)"

text \<open>Lines 622-676, the callback of the buffering timer, with the values \<open>now\<close>, \<open>detail0\<close> and
  \<open>episodeIndex0\<close> captured by its closure.\<close>

definition bufferingTimeoutFired :: "int \<Rightarrow> searchResult option \<Rightarrow> int \<Rightarrow> tickEnv \<Rightarrow> world \<Rightarrow> world" where
  "bufferingTimeoutFired now detail0 episodeIndex0 env w =
     (let currentState = player w;
          stillRecentlySeeked = isRecentlySeeked (lastSeekTime currentState) now 15000
      in case status currentState of
           None \<Rightarrow> w
         | Some currentStatus \<Rightarrow>
             if isLoaded currentStatus \<and> \<not> isPlaying currentStatus \<and>
                \<not> isUserPaused currentState \<and> \<not> stillRecentlySeeked \<and>
                positionMillis currentStatus > 0 \<and> isBuffering currentStatus \<and>
                detail0 \<noteq> None \<and> bufferingRetryCount currentState < 3
             then
               let w1 = w\<lparr>player := (player w)
                          \<lparr>bufferingRetryCount := bufferingRetryCount currentState + 1\<rparr>\<rparr>
               in case js_index (ps_episodes currentState) episodeIndex0 of
                    None \<Rightarrow> w1
                  | Some currentEpisode \<Rightarrow>
                      if bufferingRetryCount currentState = 0 then
                        (if positionMillis currentStatus > 10000
                         then emit (SetPositionAsync (max 0 (positionMillis currentStatus - 5000))) w1
                         else w1)
                      else if bufferingRetryCount currentState = 1 then w1
                      else if bufferingRetryCount currentState \<ge> 2 then
                        handleVideoError Network (url currentEpisode) (te_favourite env) w1
                      else w1
             else w)"

text \<open>Lines 695-714, a status that is not loaded. \<^verbatim>\<open>handleVideoError\<close> is not awaited: it reads the
  stored status before its first \<^verbatim>\<open>await\<close> (line 828) and writes after it only fields that
  line 712 does not write, so the model runs it to its end before the new status is stored.\<close>

definition handleUnloaded :: "avStatus \<Rightarrow> tickEnv \<Rightarrow> playerState \<Rightarrow> searchResult option \<Rightarrow> world \<Rightarrow> world" where
  "handleUnloaded newStatus env p0 detail0 w =
     (let w1 = (case bufferingTimeout p0 of
                  Some h \<Rightarrow> (clearTimeout h w)\<lparr>player := (player w)\<lparr>bufferingTimeout := None\<rparr>\<rparr>
                | None \<Rightarrow> w);
          w2 = w1\<lparr>player := (player w1)\<lparr>bufferingStartTime := None\<rparr>\<rparr>;
          w3 = (case error newStatus of
                  None \<Rightarrow> w2
                | Some e \<Rightarrow>
                    if e = [] then w2
                    else (case js_index (ps_episodes (player w2)) (currentEpisodeIndex (player w2)) of
                            None \<Rightarrow> w2
                          | Some currentEpisode \<Rightarrow>
                              if detail0 \<noteq> None
                              then handleVideoError Other (url currentEpisode) (te_favourite env) w2
                              else w2))
      in w3\<lparr>player := (player w3)\<lparr>status := Some newStatus\<rparr>\<rparr>)"

text \<open>Lines 716-745, a loaded status after the buffering detection: the jump over the outro,
  the throttled save of the play record, the advance at the end of the stream, and the new
  status.\<close>

definition handleLoaded ::
  "avStatus \<Rightarrow> int \<Rightarrow> tickEnv \<Rightarrow> playerState \<Rightarrow> searchResult option \<Rightarrow> world \<Rightarrow> world" where
  "handleLoaded newStatus now env p0 detail0 w =
     (let hasNext = currentEpisodeIndex p0 < int (length (ps_episodes p0)) - 1;
          outroReached =
            (case (outroStartTime p0, durationMillis newStatus) of
               (Some outro, Some duration) \<Rightarrow>
                 outro \<noteq> 0 \<and> duration \<noteq> 0 \<and> positionMillis newStatus \<ge> duration - outro
             | _ \<Rightarrow> False)
      in if outroReached \<and> hasNext
         then playEpisode (currentEpisodeIndex p0 + 1) (te_replayOk env) w
         else
           let w1 = (if detail0 \<noteq> None \<and> truthy (durationMillis newStatus)
                     then savePlayRecord noUpdates False now w else w);
               w2 = (if didJustFinish newStatus \<and> hasNext
                     then playEpisode (currentEpisodeIndex p0 + 1) (te_replayOk env) w1 else w1)
           in w2\<lparr>player := (player w2)\<lparr>status := Some newStatus\<rparr>\<rparr>)"

text \<open>Lines 585-746, \<^verbatim>\<open>handlePlaybackStatusUpdate\<close> for the status \<open>newStatus\<close> at time \<open>now\<close>.\<close>

definition handlePlaybackStatusUpdate :: "avStatus \<Rightarrow> int \<Rightarrow> tickEnv \<Rightarrow> world \<Rightarrow> world" where
  "handlePlaybackStatusUpdate newStatus now env w =
     (let p0 = player w; detail0 = detail (detailStore w)
      in if isLoaded newStatus
         then handleLoaded newStatus now env p0 detail0 (detectBuffering newStatus now p0 detail0 w)
         else handleUnloaded newStatus env p0 detail0 w)"

text \<open>
  The event loop. A timer that has fallen due runs before the next tick is handled; timers run
  in the order of their due times. A callback sets no timer, so the timers due at a tick are
  those pending when the tick arrives. The preload of the next episode (lines 370-375) reads the
  clock when it runs; the model takes the due time.
\<close>

definition fireTimer :: "tickEnv \<Rightarrow> timerEntry \<Rightarrow> world \<Rightarrow> world" where
  "fireTimer env t w =
     (case tm_task t of
        BufferingTimeout now detail0 episodeIndex0 \<Rightarrow>
          bufferingTimeoutFired now detail0 episodeIndex0 env w
      | ThrottleRelease \<Rightarrow> w\<lparr>player := (player w)\<lparr>isRecordSaveThrottled := False\<rparr>\<rparr>
      | PreloadNextEpisode nextEpisodeUrl episodeIndex \<Rightarrow>
          if currentEpisodeIndex (player w) = episodeIndex then
            (let (verdict, p1, urls) =
                   preloadAndTestSource nextEpisodeUrl (tm_due t) (te_fetch env) (player w)
             in w\<lparr>player := p1, effects := effects w @ map Fetch urls\<rparr>)
          else w)"

definition fireDue :: "int \<Rightarrow> tickEnv \<Rightarrow> world \<Rightarrow> world" where
  "fireDue now env w =
     fold (fireTimer env)
          (sort_key tm_due (filter (\<lambda>t. tm_due t \<le> now) (timers w)))
          (w\<lparr>timers := filter (\<lambda>t. \<not> tm_due t \<le> now) (timers w)\<rparr>)"

record tick =
  tk_time :: int
  tk_status :: avStatus
  tk_env :: tickEnv

fun run :: "tick list \<Rightarrow> world \<Rightarrow> world" where
  "run [] w = w"
| "run (tk # tks) w =
     run tks (handlePlaybackStatusUpdate (tk_status tk) (tk_time tk) (tk_env tk)
                (fireDue (tk_time tk) (tk_env tk) w))"

text \<open>The number of invocations of \<^verbatim>\<open>handleVideoError\<close>, and of the toast that tells that every
  source is unavailable.\<close>

fun isHandleVideoError :: "effect \<Rightarrow> bool" where
  "isHandleVideoError (HandleVideoError et u) = True"
| "isHandleVideoError e = False"

definition videoErrorCalls :: "world \<Rightarrow> nat" where
  "videoErrorCalls w = length (filter isHandleVideoError (effects w))"

definition exhaustedToasts :: "world \<Rightarrow> nat" where
  "exhaustedToasts w = length (filter (\<lambda>e. e = ToastShow ToastAllSourcesUnavailable) (effects w))"

text \<open>A status that is loaded, not playing and buffering, with a position and a duration
  above zero.\<close>

definition stalled :: "avStatus \<Rightarrow> bool" where
  "stalled s =
     (isLoaded s \<and> \<not> isPlaying s \<and> isBuffering s \<and> positionMillis s > 0 \<and>
      (case durationMillis s of Some d \<Rightarrow> d > 0 | None \<Rightarrow> False))"

definition world_of :: "detailState \<Rightarrow> playerState \<Rightarrow> world" where
  "world_of st p =
     \<lparr>player = p, detailStore = st, playRecords = Map.empty, playerSettings = Map.empty,
      timers = [], nextTimerId = 1, effects = []\<rparr>"

definition playing_status :: "int \<Rightarrow> avStatus" where
  "playing_status pos =
     \<lparr>isLoaded = True, isPlaying = True, isBuffering = False, positionMillis = pos,
      durationMillis = Some 2400000, didJustFinish = False, error = None\<rparr>"

definition ex_player :: playerState where
  "ex_player = fresh_player\<lparr>currentEpisodeIndex := 0, ps_episodes := mapEpisodes (episodes ex_current),
                            status := Some (playing_status 90000), isLoading := False\<rparr>"

definition ex_world :: world where
  "ex_world = world_of ex_store ex_player"

definition ex_world_exhausted :: world where
  "ex_world_exhausted = world_of ex_exhausted ex_player"

definition unloaded_status :: avStatus where
  "unloaded_status =
     \<lparr>isLoaded = False, isPlaying = False, isBuffering = False, positionMillis = 0,
      durationMillis = None, didJustFinish = False, error = Some ''load failed''\<rparr>"

definition ex_world_resuming :: world where
  "ex_world_resuming =
     world_of ex_store (ex_player\<lparr>status := Some unloaded_status, initialPosition := 12000\<rparr>)"

definition ex_options :: loadVideoOptions where
  "ex_options =
     \<lparr>lv_source = ''cur'', lv_id = ''1'', lv_title = ''t'', lv_episodeIndex = 0, lv_position = None\<rparr>"

definition ex_env :: "fetchResponse promise \<Rightarrow> loadVideoEnv" where
  "ex_env fetch1 =
     \<lparr>env_getResolution = (\<lambda>u. None), env_initCalls = [], env_initFavourite = Resolved False,
      env_now1 = 1000000, env_fetch1 = fetch1,
      env_now2 = 1008000, env_fetch2 = Resolved \<lparr>fr_status = 200, fr_responseTime = 120\<rparr>,
      env_setDetailFavourite = Resolved False, env_now3 = 1009000, env_storageOk = True\<rparr>"

definition ex_world_two_sources :: world where
  "ex_world_two_sources =
     world_of (store_of [ex_current, ex_a1080] (Some ex_current) {}) fresh_player"

definition ex_world_playing :: world where
  "ex_world_playing =
     world_of (store_of [ex_current] (Some ex_current) {})
       (ex_player\<lparr>status := Some (playing_status 12345), introEndTime := Some 61500\<rparr>)"

definition ex_world_two_playing :: world where
  "ex_world_two_playing =
     world_of (store_of [ex_current, ex_a1080] (Some ex_current) {})
       (ex_player\<lparr>status := Some (playing_status 12345)\<rparr>)"

text \<open>The pending buffering timers, and what the buffering logic reads apart from the stored
  status and the timers: the start of the buffering, the retry count, the pause flag, the time
  of the last seek, the outro marker, the active detail; with it the number of invocations of
  \<open>handleVideoError\<close> so far.\<close>

fun isBufferingTask :: "timerTask \<Rightarrow> bool" where
  "isBufferingTask (BufferingTimeout now detail0 episodeIndex0) = True"
| "isBufferingTask task = False"

definition bufTimers :: "world \<Rightarrow> timerEntry list" where
  "bufTimers w = filter (\<lambda>t. isBufferingTask (tm_task t)) (timers w)"

definition bufView ::
  "world \<Rightarrow> int option \<times> nat \<times> bool \<times> int option \<times> int option \<times> searchResult option \<times> nat" where
  "bufView w =
     (bufferingStartTime (player w), bufferingRetryCount (player w), isUserPaused (player w),
      lastSeekTime (player w), outroStartTime (player w), detail (detailStore w),
      videoErrorCalls w)"

definition stalled_status :: "int \<Rightarrow> avStatus" where
  "stalled_status pos =
     \<lparr>isLoaded = True, isPlaying = False, isBuffering = True, positionMillis = pos,
      durationMillis = Some 2400000, didJustFinish = False, error = None\<rparr>"

definition ex_tick :: "int \<Rightarrow> tick" where
  "ex_tick t =
     \<lparr>tk_time = t, tk_status = stalled_status 90000,
      tk_env = \<lparr>te_favourite = Resolved False, te_replayOk = True, te_fetch = Rejected\<rparr>\<rparr>"

definition ex_long_ticks :: "tick list" where
  "ex_long_ticks =
     map ex_tick [1000000, 1010000, 1020000, 1030000, 1040000, 1050000, 1060000, 1070000]"

section \<open>Properties\<close>

lemma js_index_in_range:
  "0 \<le> i \<Longrightarrow> i < int (length xs) \<Longrightarrow> js_index xs i = Some (xs ! nat i)"
  by (simp add: js_index_def)

subsection \<open>selectCurrentEpisode\<close>

lemma dropWhile_dropWhile_Nil:
  "dropWhile P (rev (dropWhile P s)) = [] \<longleftrightarrow> dropWhile P s = []"
proof (cases "dropWhile P s")
  case Nil
  show ?thesis unfolding Nil by simp
next
  case (Cons x xs)
  then have "\<not> P x"
    by (metis hd_dropWhile list.distinct(1) list.sel(1))
  then have "dropWhile P (rev (dropWhile P s)) \<noteq> []"
    using Cons by (simp add: dropWhile_eq_Nil_conv)
  then show ?thesis
    using Cons by simp
qed

lemma trim_eq_Nil_iff: "trim s = [] \<longleftrightarrow> list_all isWhiteSpace s"
  unfolding trim_def
  by (simp only: rev_is_Nil_conv dropWhile_dropWhile_Nil) (simp add: list_all_iff)

lemma trim_neq_Nil_iff: "trim s \<noteq> [] \<longleftrightarrow> list_ex (\<lambda>c. \<not> isWhiteSpace c) s"
  by (simp add: trim_eq_Nil_iff list_all_iff list_ex_iff)

text \<open>
  Claim C10. \<open>selectCurrentEpisode\<close> is total; it returns the episode at \<open>currentEpisodeIndex\<close>
  exactly when the episode list is not empty, the index lies in \<open>0 \<le> i < length\<close> and the url of
  that episode holds a character that is not white space (so it is not empty and not white
  space only); in every other state it returns nothing. The array is read only inside its
  bounds.
\<close>

theorem selectCurrentEpisode_spec:
  "selectCurrentEpisode state =
     (if ps_episodes state \<noteq> [] \<and> 0 \<le> currentEpisodeIndex state \<and>
         currentEpisodeIndex state < int (length (ps_episodes state)) \<and>
         list_ex (\<lambda>c. \<not> isWhiteSpace c)
           (url (ps_episodes state ! nat (currentEpisodeIndex state)))
      then Some (ps_episodes state ! nat (currentEpisodeIndex state))
      else None)"
  by (auto simp: selectCurrentEpisode_def js_index_def trim_neq_Nil_iff list_ex_iff)

theorem selectCurrentEpisode_spec_witness:
  "selectCurrentEpisode ex_player = Some \<lparr>url = ''http://cur/1.m3u8'', ep_number = 1\<rparr> \<and>
   selectCurrentEpisode (ex_player\<lparr>currentEpisodeIndex := 1\<rparr>) = None \<and>
   selectCurrentEpisode (ex_player\<lparr>currentEpisodeIndex := -1\<rparr>) = None \<and>
   selectCurrentEpisode (ex_player\<lparr>ps_episodes := [\<lparr>url = '' '', ep_number = 1\<rparr>]\<rparr>) = None"
  by (simp only: selectCurrentEpisode_spec)
     (simp add: ex_player_def fresh_player_def mapEpisodes_def ex_current_def candidate_def
        isWhiteSpace_def)

subsection \<open>Evaluating the double-precision score\<close>

lemma bitlen_0: "bitlen 0 = 0"
  by (simp add: bitlen.simps)

lemma bitlen_1: "bitlen (Suc 0) = 1"
  by (simp add: bitlen.simps)

lemma bitlen_numeral: "bitlen (numeral k) = Suc (bitlen (numeral k div 2))"
  by (subst bitlen.simps) simp

lemmas bitlen_eval = bitlen_0 bitlen_1 bitlen_numeral

lemma score_table:
  "score_of 0 4 = 0" "score_of 0 3 = 7205759403792794" "score_of 0 2 = 14411518807585588"
  "score_of 0 1 = 21617278211378384" "score_of 0 0 = 28823037615171176"
  "score_of 1 4 = 10808639105689190" "score_of 1 3 = 18014398509481984" "score_of 1 2 = 25220157913274776"
  "score_of 1 1 = 32425917317067576" "score_of 1 0 = 39631676720860368"
  "score_of 2 4 = 21617278211378380" "score_of 2 3 = 28823037615171176" "score_of 2 2 = 36028797018963968"
  "score_of 2 1 = 43234556422756768" "score_of 2 0 = 50440315826549552"
  "score_of 3 4 = 32425917317067568" "score_of 3 3 = 39631676720860360" "score_of 3 2 = 46837436124653152"
  "score_of 3 1 = 54043195528445952" "score_of 3 0 = 61248954932238744"
  "score_of 4 4 = 43234556422756760" "score_of 4 3 = 50440315826549552" "score_of 4 2 = 57646075230342352"
  "score_of 4 1 = 64851834634135144" "score_of 4 0 = 72057594037927936"
  by (simp_all add: score_of_def round53_def dbl_0_6_def dbl_0_4_def Let_def bitlen_eval)

lemma resolutionPriority_le: "resolutionPriority res \<le> 4"
  by (simp add: resolutionPriority_def)

lemma speedScore_le: "speedScore sp \<le> 4"
  by (simp add: speedScore_def split: option.split)

lemma le4_cases: "n \<le> 4 \<Longrightarrow> n \<in> set [0, 1, 2, 3, 4 :: nat]"
  by (simp; arith)

lemma score_of_close_aux:
  "\<forall>p \<in> set [0, 1, 2, 3, 4 :: nat]. \<forall>s \<in> set [0, 1, 2, 3, 4 :: nat].
     \<bar>5 * int (score_of p s) - (3 * int p + 2 * (4 - int s)) * 2 ^ 54\<bar> \<le> 40"
  by (simp add: score_table del: One_nat_def)

lemma score_of_close:
  assumes "p \<le> 4" "s \<le> 4"
  shows "\<bar>5 * int (score_of p s) - (3 * int p + 2 * (4 - int s)) * 2 ^ 54\<bar> \<le> 40"
  using score_of_close_aux le4_cases [OF assms(1)] le4_cases [OF assms(2)] by blast

subsection \<open>The head of a stable sort\<close>

lemma hd_insort_key:
  "hd (insort_key f x ys) = (if ys = [] \<or> f x \<le> f (hd ys) then x else hd ys)"
  by (cases ys) auto

lemma sort_key_Nil_iff: "sort_key f xs = [] \<longleftrightarrow> xs = []"
  by (metis length_sort length_0_conv)

lemma hd_sort_key_first_min:
  fixes f :: "'a \<Rightarrow> int"
  assumes "xs \<noteq> []"
  shows "\<exists>pre post. xs = pre @ hd (sort_key f xs) # post \<and>
           (\<forall>c\<in>set pre. f (hd (sort_key f xs)) < f c) \<and>
           (\<forall>c\<in>set post. f (hd (sort_key f xs)) \<le> f c)"
  using assms
proof (induction xs)
  case Nil
  then show ?case by simp
next
  case (Cons x xs)
  show ?case
  proof (cases "xs = []")
    case True
    then show ?thesis by (intro exI [of _ "[]"]) simp
  next
    case False
    from Cons.IH [OF False] obtain pre post where
      split: "xs = pre @ hd (sort_key f xs) # post" and
      before: "\<forall>c\<in>set pre. f (hd (sort_key f xs)) < f c" and
      after: "\<forall>c\<in>set post. f (hd (sort_key f xs)) \<le> f c"
      by blast
    let ?m = "hd (sort_key f xs)"
    have all: "\<forall>c\<in>set xs. f ?m \<le> f c"
      using split before after
      by (metis Un_iff insert_iff list.set(2) order_less_imp_le order_refl set_append)
    show ?thesis
    proof (cases "f x \<le> f ?m")
      case True
      then have h: "hd (sort_key f (x # xs)) = x"
        by (simp add: hd_insort_key)
      have "\<forall>c\<in>set xs. f x \<le> f c"
        using all True by auto
      then show ?thesis
        unfolding h by (intro exI [of _ "[]"] exI [of _ xs]) simp
    next
      case lt: False
      then have h: "hd (sort_key f (x # xs)) = ?m"
        using False by (simp add: hd_insort_key sort_key_Nil_iff)
      have "x # xs = (x # pre) @ ?m # post"
        using split by simp
      moreover have "\<forall>c\<in>set (x # pre). f ?m < f c"
        using before lt by auto
      ultimately show ?thesis
        unfolding h using after by blast
    qed
  qed
qed

subsection \<open>getNextAvailableSource\<close>

lemma js_index_hd: "xs \<noteq> [] \<Longrightarrow> js_index xs 0 = Some (hd xs)"
  by (cases xs) (simp_all add: js_index_def)

lemma getNextAvailableSource_eq:
  "getNextAvailableSource cur idx st =
     (if availableSources cur idx st = [] then None
      else Some (hd (sort_key (\<lambda>a. - int (totalScore a)) (availableSources cur idx st))))"
  by (simp add: getNextAvailableSource_def Let_def js_index_hd sort_key_Nil_iff)

lemma getNextAvailableSource_mem:
  assumes "getNextAvailableSource cur idx st = Some r"
  shows "r \<in> set (availableSources cur idx st)"
proof -
  let ?av = "availableSources cur idx st"
  from assms have ne: "?av \<noteq> []" and r: "r = hd (sort_key (\<lambda>a. - int (totalScore a)) ?av)"
    by (auto simp: getNextAvailableSource_eq split: if_splits)
  have "hd (sort_key (\<lambda>a. - int (totalScore a)) ?av) \<in> set (sort_key (\<lambda>a. - int (totalScore a)) ?av)"
    using ne by (intro hd_in_set) (simp add: sort_key_Nil_iff)
  then show ?thesis using r by simp
qed

text \<open>
  Claim C2. Whenever \<open>getNextAvailableSource currentSource episodeIndex\<close> returns a candidate,
  the candidate is one of \<open>searchResults\<close>, its source differs from \<open>currentSource\<close>, its source
  is not in \<open>failedSources\<close> and its episode list is longer than \<open>episodeIndex\<close>; and the call
  returns nothing exactly when no entry of \<open>searchResults\<close> meets the three conditions.
\<close>

theorem getNextAvailableSource_filter:
  "(\<forall>r. getNextAvailableSource currentSource episodeIndex st = Some r \<longrightarrow>
        r \<in> set (searchResults st) \<and> source r \<noteq> currentSource \<and>
        source r \<notin> failedSources st \<and> int (length (episodes r)) > episodeIndex) \<and>
   (getNextAvailableSource currentSource episodeIndex st = None \<longleftrightarrow>
      \<not> (\<exists>c \<in> set (searchResults st). source c \<noteq> currentSource \<and>
            source c \<notin> failedSources st \<and> int (length (episodes c)) > episodeIndex))"
proof (intro conjI allI impI)
  fix r
  assume "getNextAvailableSource currentSource episodeIndex st = Some r"
  then have "r \<in> set (availableSources currentSource episodeIndex st)"
    by (rule getNextAvailableSource_mem)
  then show "r \<in> set (searchResults st)" "source r \<noteq> currentSource"
    "source r \<notin> failedSources st" "int (length (episodes r)) > episodeIndex"
    by (simp_all add: availableSources_def)
next
  show "getNextAvailableSource currentSource episodeIndex st = None \<longleftrightarrow>
      \<not> (\<exists>c \<in> set (searchResults st). source c \<noteq> currentSource \<and>
            source c \<notin> failedSources st \<and> int (length (episodes c)) > episodeIndex)"
    by (auto simp: getNextAvailableSource_eq availableSources_def filter_empty_conv)
qed

lemma getNextAvailableSource_first_best:
  assumes "getNextAvailableSource cur idx st = Some r"
  shows "\<exists>pre post. availableSources cur idx st = pre @ r # post \<and>
           (\<forall>c\<in>set pre. totalScore c < totalScore r) \<and>
           (\<forall>c\<in>set post. totalScore c \<le> totalScore r)"
proof -
  let ?av = "availableSources cur idx st"
  let ?f = "\<lambda>a. - int (totalScore a)"
  from assms have ne: "?av \<noteq> []" and r: "r = hd (sort_key ?f ?av)"
    by (auto simp: getNextAvailableSource_eq split: if_splits)
  from hd_sort_key_first_min [OF ne, of ?f] show ?thesis
    unfolding r [symmetric] by simp
qed

lemma totalScore_close:
  "\<bar>real (totalScore a) / 2 ^ 54 -
     (0.6 * real (resolutionPriority (case resolution a of None \<Rightarrow> [] | Some r \<Rightarrow> r)) +
      0.4 * (4 - real (speedScore (networkSpeed a))))\<bar> \<le> 1 / 2 ^ 50"
proof -
  let ?p = "resolutionPriority (case resolution a of None \<Rightarrow> [] | Some r \<Rightarrow> r)"
  let ?s = "speedScore (networkSpeed a)"
  have "\<bar>5 * int (score_of ?p ?s) - (3 * int ?p + 2 * (4 - int ?s)) * 2 ^ 54\<bar> \<le> 40"
    by (rule score_of_close [OF resolutionPriority_le speedScore_le])
  then have "\<bar>real_of_int (5 * int (score_of ?p ?s) - (3 * int ?p + 2 * (4 - int ?s)) * 2 ^ 54)\<bar> \<le> 40"
    by linarith
  then have "\<bar>5 * real (score_of ?p ?s) - (3 * real ?p + 2 * (4 - real ?s)) * 2 ^ 54\<bar> \<le> 40"
    by simp
  then have "\<bar>real (score_of ?p ?s) / 2 ^ 54 - (0.6 * real ?p + 0.4 * (4 - real ?s))\<bar> \<le> 8 / 2 ^ 54"
    by (simp add: field_simps abs_le_iff)
  then show ?thesis
    by (simp add: totalScore_def)
qed

lemma score_of_strict_mono:
  assumes "p \<le> 4" "s \<le> 4" "p' \<le> 4" "s' \<le> 4"
    and "3 * int p + 2 * (4 - int s) < 3 * int p' + 2 * (4 - int s')"
  shows "score_of p s < score_of p' s'"
proof -
  have a: "\<bar>5 * int (score_of p s) - (3 * int p + 2 * (4 - int s)) * 2 ^ 54\<bar> \<le> 40"
    by (rule score_of_close [OF assms(1,2)])
  have b: "\<bar>5 * int (score_of p' s') - (3 * int p' + 2 * (4 - int s')) * 2 ^ 54\<bar> \<le> 40"
    by (rule score_of_close [OF assms(3,4)])
  have "3 * int p + 2 * (4 - int s) + 1 \<le> 3 * int p' + 2 * (4 - int s')"
    using assms(5) by simp
  then have "(3 * int p + 2 * (4 - int s) + 1) * 2 ^ 54 \<le> (3 * int p' + 2 * (4 - int s')) * 2 ^ 54"
    by (rule mult_right_mono) simp
  then have "(3 * int p + 2 * (4 - int s)) * 2 ^ 54 + 2 ^ 54 \<le> (3 * int p' + 2 * (4 - int s')) * 2 ^ 54"
    by (simp add: algebra_simps)
  with a b have "5 * int (score_of p s) < 5 * int (score_of p' s')"
    by simp
  then show ?thesis by simp
qed

lemma exactScore_strict_mono:
  assumes "exactScore a < exactScore b"
  shows "totalScore a < totalScore b"
proof -
  let ?p = "\<lambda>a. resolutionPriority (case resolution a of None \<Rightarrow> [] | Some r \<Rightarrow> r)"
  let ?s = "\<lambda>a. speedScore (networkSpeed a)"
  from assms have "0.6 * real (?p a) + 0.4 * (4 - real (?s a)) < 0.6 * real (?p b) + 0.4 * (4 - real (?s b))"
    by (simp only: exactScore_def)
  then have "3 * real (?p a) + 2 * (4 - real (?s a)) < 3 * real (?p b) + 2 * (4 - real (?s b))"
    by linarith
  then have "real_of_int (3 * int (?p a) + 2 * (4 - int (?s a))) < real_of_int (3 * int (?p b) + 2 * (4 - int (?s b)))"
    by simp
  then have "3 * int (?p a) + 2 * (4 - int (?s a)) < 3 * int (?p b) + 2 * (4 - int (?s b))"
    by linarith
  then show ?thesis
    unfolding totalScore_def
    by (intro score_of_strict_mono resolutionPriority_le speedScore_le)
qed

lemma resolutionPriority_examples:
  "resolutionPriority ''1080p'' = 4" "resolutionPriority ''720p'' = 3"
  "resolutionPriority ''480p'' = 2" "resolutionPriority ''360p'' = 1" "resolutionPriority [] = 0"
  by (simp_all add: resolutionPriority_def)

lemma totalScore_1080_250:
  "resolution a = Some ''1080p'' \<Longrightarrow> networkSpeed a = Some 250 \<Longrightarrow> totalScore a = 72057594037927936"
  by (simp add: totalScore_def resolutionPriority_examples speedScore_def score_table)

lemma totalScore_720_100:
  "resolution a = Some ''720p'' \<Longrightarrow> networkSpeed a = Some 100 \<Longrightarrow> totalScore a = 61248954932238744"
  by (simp add: totalScore_def resolutionPriority_examples speedScore_def score_table)

lemma str_includes_iff: "str_includes s n \<longleftrightarrow> (\<exists>pre post. s = pre @ n @ post)"
proof (induction s)
  case Nil
  then show ?case by simp
next
  case (Cons c cs)
  have pre: "take (length n) (c # cs) = n \<longleftrightarrow> (\<exists>post. c # cs = n @ post)"
    by (metis append_eq_conv_conj append_take_drop_id)
  have "(\<exists>pre post. c # cs = pre @ n @ post) \<longleftrightarrow>
        (\<exists>post. c # cs = n @ post) \<or> (\<exists>pre post. cs = pre @ n @ post)"
  proof
    assume "\<exists>pre post. c # cs = pre @ n @ post"
    then obtain pre post where e: "c # cs = pre @ n @ post" by blast
    show "(\<exists>post. c # cs = n @ post) \<or> (\<exists>pre post. cs = pre @ n @ post)"
    proof (cases pre)
      case Nil
      with e show ?thesis by auto
    next
      case (Cons a pre')
      with e have "cs = pre' @ n @ post" by simp
      then show ?thesis by blast
    qed
  next
    assume "(\<exists>post. c # cs = n @ post) \<or> (\<exists>pre post. cs = pre @ n @ post)"
    then show "\<exists>pre post. c # cs = pre @ n @ post"
    proof
      assume "\<exists>post. c # cs = n @ post"
      then obtain post where "c # cs = [] @ n @ post" by auto
      then show ?thesis by blast
    next
      assume "\<exists>pre post. cs = pre @ n @ post"
      then obtain pre post where "c # cs = (c # pre) @ n @ post" by auto
      then show ?thesis by blast
    qed
  qed
  then show ?case
    using Cons.IH pre by simp
qed

lemma totalScore_720_1500:
  "resolution a = Some ''720p'' \<Longrightarrow> networkSpeed a = Some 1500 \<Longrightarrow> totalScore a = 39631676720860360"
  by (simp add: totalScore_def resolutionPriority_examples speedScore_def score_table)

lemma totalScore_360_100:
  "resolution a = Some ''360p'' \<Longrightarrow> networkSpeed a = Some 100 \<Longrightarrow> totalScore a = 39631676720860368"
  by (simp add: totalScore_def resolutionPriority_examples speedScore_def score_table del: One_nat_def)

lemma exactScore_tie:
  "resolution a = Some ''720p'' \<Longrightarrow> networkSpeed a = Some 1500 \<Longrightarrow>
   resolution b = Some ''360p'' \<Longrightarrow> networkSpeed b = Some 100 \<Longrightarrow> exactScore a = exactScore b"
  by (simp add: exactScore_def resolutionPriority_examples speedScore_def)

text \<open>
  Claim C3, as amended. The resolution tier is \<open>4\<close> for a resolution string that contains
  \<open>1080\<close>, otherwise \<open>3\<close> when it contains \<open>720\<close>, otherwise \<open>2\<close> when it contains \<open>480\<close>, otherwise
  \<open>1\<close> when it contains \<open>360\<close>, and \<open>0\<close> for every other string and for an unknown resolution (so
  \<open>1080p\<close>, \<open>720p\<close>, \<open>480p\<close>, \<open>360p\<close> have the tiers 4, 3, 2, 1). The latency bucket is 0, 1, 2, 3
  below 300, 600, 1000, 2000 ms, \<open>4\<close> from 2000 ms on and \<open>3\<close> when unmeasured. The score of a
  candidate is \<open>0.6 * tier + 0.4 * (4 - bucket)\<close> computed in double precision, each product and
  the sum rounded (it differs from the exact value by at most \<open>2\<^sup>-\<^sup>5\<^sup>0\<close>). The candidate returned
  has the highest computed score among the filtered candidates and is the first of them in
  discovery order with that computed score; it also has the highest exact score. Scores that
  are equal in exact arithmetic can differ as computed: 720p at 1500 ms computes lower than 360p
  at 100 ms. A candidate with 1080p and 250 ms scores higher than one with 720p and 100 ms.
\<close>

theorem getNextAvailableSource_ranking:
  "(\<forall>res. resolutionPriority res =
      (if str_includes res ''1080'' then 4 else if str_includes res ''720'' then 3
       else if str_includes res ''480'' then 2 else if str_includes res ''360'' then 1 else 0)) \<and>
   (\<forall>s n. str_includes s n \<longleftrightarrow> (\<exists>pre post. s = pre @ n @ post)) \<and>
   (resolutionPriority ''1080p'' = 4 \<and> resolutionPriority ''720p'' = 3 \<and> resolutionPriority ''480p'' = 2 \<and>
    resolutionPriority ''360p'' = 1 \<and> resolutionPriority [] = 0) \<and>
   (\<forall>v. speedScore (Some v) =
      (if v < 300 then 0 else if v < 600 then 1 else if v < 1000 then 2 else if v < 2000 then 3 else 4)) \<and>
   speedScore None = 3 \<and>
   (\<forall>a. totalScore a =
      score_of (resolutionPriority (case resolution a of None \<Rightarrow> [] | Some r \<Rightarrow> r))
               (speedScore (networkSpeed a))) \<and>
   (\<forall>a. \<bar>real (totalScore a) / 2 ^ 54 - exactScore a\<bar> \<le> 1 / 2 ^ 50) \<and>
   (\<forall>r. getNextAvailableSource currentSource episodeIndex st = Some r \<longrightarrow>
      (\<exists>pre post. availableSources currentSource episodeIndex st = pre @ r # post \<and>
         (\<forall>c\<in>set pre. totalScore c < totalScore r) \<and>
         (\<forall>c\<in>set post. totalScore c \<le> totalScore r)) \<and>
      (\<forall>c\<in>set (availableSources currentSource episodeIndex st). exactScore c \<le> exactScore r)) \<and>
   (\<forall>a b. resolution a = Some ''1080p'' \<and> networkSpeed a = Some 250 \<and>
      resolution b = Some ''720p'' \<and> networkSpeed b = Some 100 \<longrightarrow> totalScore b < totalScore a) \<and>
   (\<forall>a b. resolution a = Some ''720p'' \<and> networkSpeed a = Some 1500 \<and>
      resolution b = Some ''360p'' \<and> networkSpeed b = Some 100 \<longrightarrow>
      exactScore a = exactScore b \<and> totalScore a < totalScore b)"
proof (intro conjI allI impI ballI)
  fix res
  show "resolutionPriority res =
      (if str_includes res ''1080'' then 4 else if str_includes res ''720'' then 3
       else if str_includes res ''480'' then 2 else if str_includes res ''360'' then 1 else 0)"
    by (simp only: resolutionPriority_def)
next
  fix s n :: string
  show "str_includes s n \<longleftrightarrow> (\<exists>pre post. s = pre @ n @ post)"
    by (rule str_includes_iff)
next
  fix v :: real
  show "speedScore (Some v) =
      (if v < 300 then 0 else if v < 600 then 1 else if v < 1000 then 2 else if v < 2000 then 3 else 4)"
    by (simp add: speedScore_def)
next
  show "speedScore None = 3"
    by (simp add: speedScore_def)
next
  fix a
  show "totalScore a =
      score_of (resolutionPriority (case resolution a of None \<Rightarrow> [] | Some r \<Rightarrow> r))
               (speedScore (networkSpeed a))"
    by (simp only: totalScore_def)
next
  fix a
  show "\<bar>real (totalScore a) / 2 ^ 54 - exactScore a\<bar> \<le> 1 / 2 ^ 50"
    unfolding exactScore_def by (rule totalScore_close)
next
  fix r
  assume r: "getNextAvailableSource currentSource episodeIndex st = Some r"
  then show "\<exists>pre post. availableSources currentSource episodeIndex st = pre @ r # post \<and>
         (\<forall>c\<in>set pre. totalScore c < totalScore r) \<and>
         (\<forall>c\<in>set post. totalScore c \<le> totalScore r)"
    by (rule getNextAvailableSource_first_best)
  fix c
  assume c: "c \<in> set (availableSources currentSource episodeIndex st)"
  from getNextAvailableSource_first_best [OF r] c have "totalScore c \<le> totalScore r"
    by (auto simp: less_imp_le)
  then show "exactScore c \<le> exactScore r"
    using exactScore_strict_mono [of r c] by fastforce
next
  fix a b :: searchResult
  assume "resolution a = Some ''1080p'' \<and> networkSpeed a = Some 250 \<and>
      resolution b = Some ''720p'' \<and> networkSpeed b = Some 100"
  then show "totalScore b < totalScore a"
    by (simp add: totalScore_1080_250 totalScore_720_100)
next
  fix a b :: searchResult
  assume h: "resolution a = Some ''720p'' \<and> networkSpeed a = Some 1500 \<and>
      resolution b = Some ''360p'' \<and> networkSpeed b = Some 100"
  then show "exactScore a = exactScore b"
    by (intro exactScore_tie) simp_all
  from h show "totalScore a < totalScore b"
    by (simp add: totalScore_720_1500 totalScore_360_100)
qed (simp_all add: resolutionPriority_examples)

lemmas ex_defs = ex_b720_def ex_a1080_def ex_current_def ex_store_def ex_exhausted_def
  ex_slow720_def ex_unmeasured720_def ex_slow_store_def candidate_def store_of_def

lemma ex_scores:
  "totalScore ex_b720 = 61248954932238744" "totalScore ex_a1080 = 72057594037927936"
  "totalScore ex_slow720 = 32425917317067568" "totalScore ex_unmeasured720 = 39631676720860360"
  by (simp_all add: ex_defs totalScore_def resolutionPriority_examples speedScore_def score_table
      del: One_nat_def)

lemma ex_tie_scores:
  "totalScore ex_720_1500 = 39631676720860360" "totalScore ex_360_100 = 39631676720860368"
  "totalScore ex_hls = 50440315826549552"
  by (simp_all add: ex_720_1500_def ex_360_100_def ex_hls_def candidate_def totalScore_def
      resolutionPriority_def speedScore_def score_table del: One_nat_def)

lemma ex_store_available:
  "availableSources ''cur'' 0 ex_store = [ex_b720, ex_a1080]"
  "availableSources ''cur'' 0 ex_exhausted = []"
  "availableSources ''cur'' 0 ex_slow_store = [ex_slow720, ex_unmeasured720]"
  by (simp_all add: availableSources_def ex_defs)

lemma ex_tie_available:
  "availableSources ''cur'' 0 ex_tie_store = [ex_720_1500, ex_360_100]"
  "availableSources ''cur'' 0 ex_hls_store = [ex_unmeasured720, ex_hls]"
  by (simp_all add: availableSources_def ex_tie_store_def ex_hls_store_def ex_720_1500_def
      ex_360_100_def ex_hls_def ex_defs)

lemma ex_store_next: "getNextAvailableSource ''cur'' 0 ex_store = Some ex_a1080"
  by (simp add: getNextAvailableSource_eq ex_store_available ex_scores)

lemma ex_exhausted_next: "getNextAvailableSource ''cur'' 0 ex_exhausted = None"
  by (simp add: getNextAvailableSource_eq ex_store_available)

lemma ex_slow_store_next: "getNextAvailableSource ''cur'' 0 ex_slow_store = Some ex_unmeasured720"
  by (simp add: getNextAvailableSource_eq ex_store_available ex_scores)

lemma ex_tie_next:
  "getNextAvailableSource ''cur'' 0 ex_tie_store = Some ex_360_100"
  "getNextAvailableSource ''cur'' 0 ex_hls_store = Some ex_hls"
  by (simp_all add: getNextAvailableSource_eq ex_tie_available ex_tie_scores ex_scores)

theorem getNextAvailableSource_filter_witness:
  "getNextAvailableSource ''cur'' 0 ex_store = Some ex_a1080 \<and>
   ex_a1080 \<in> set (searchResults ex_store) \<and> source ex_a1080 \<noteq> ''cur'' \<and>
   source ex_a1080 \<notin> failedSources ex_store \<and> int (length (episodes ex_a1080)) > 0 \<and>
   getNextAvailableSource ''cur'' 0 ex_exhausted = None \<and>
   \<not> (\<exists>c \<in> set (searchResults ex_exhausted). source c \<noteq> ''cur'' \<and>
         source c \<notin> failedSources ex_exhausted \<and> int (length (episodes c)) > 0)"
  using getNextAvailableSource_filter [of "''cur''" 0 ex_store]
    getNextAvailableSource_filter [of "''cur''" 0 ex_exhausted]
    ex_store_next ex_exhausted_next
  by blast

theorem getNextAvailableSource_ranking_witness:
  "getNextAvailableSource ''cur'' 0 ex_store = Some ex_a1080 \<and>
   (\<exists>pre post. availableSources ''cur'' 0 ex_store = pre @ ex_a1080 # post \<and>
      (\<forall>c\<in>set pre. totalScore c < totalScore ex_a1080) \<and>
      (\<forall>c\<in>set post. totalScore c \<le> totalScore ex_a1080)) \<and>
   totalScore ex_b720 < totalScore ex_a1080 \<and>
   exactScore ex_b720 \<le> exactScore ex_a1080 \<and>
   exactScore ex_720_1500 = exactScore ex_360_100 \<and>
   totalScore ex_720_1500 < totalScore ex_360_100 \<and>
   resolutionPriority ''1920x1080'' = 4 \<and> resolutionPriority ''4K'' = 0"
proof -
  note rank = getNextAvailableSource_ranking [of "''cur''" 0 ex_store]
  have av: "ex_b720 \<in> set (availableSources ''cur'' 0 ex_store)"
    by (simp add: ex_store_available)
  have res: "resolution ex_a1080 = Some ''1080p'' \<and> networkSpeed ex_a1080 = Some 250 \<and>
      resolution ex_b720 = Some ''720p'' \<and> networkSpeed ex_b720 = Some 100"
    by (simp add: ex_defs)
  have tie: "resolution ex_720_1500 = Some ''720p'' \<and> networkSpeed ex_720_1500 = Some 1500 \<and>
      resolution ex_360_100 = Some ''360p'' \<and> networkSpeed ex_360_100 = Some 100"
    by (simp add: ex_720_1500_def ex_360_100_def candidate_def)
  from rank have tiers: "\<forall>res. resolutionPriority res =
      (if str_includes res ''1080'' then 4 else if str_includes res ''720'' then 3
       else if str_includes res ''480'' then 2 else if str_includes res ''360'' then 1 else 0)"
    by (rule conjunct1)
  have p: "resolutionPriority ''1920x1080'' = 4" "resolutionPriority ''4K'' = 0"
    by (simp_all add: tiers)
  from rank have rest:
    "(\<forall>r. getNextAvailableSource ''cur'' 0 ex_store = Some r \<longrightarrow>
      (\<exists>pre post. availableSources ''cur'' 0 ex_store = pre @ r # post \<and>
         (\<forall>c\<in>set pre. totalScore c < totalScore r) \<and>
         (\<forall>c\<in>set post. totalScore c \<le> totalScore r)) \<and>
      (\<forall>c\<in>set (availableSources ''cur'' 0 ex_store). exactScore c \<le> exactScore r)) \<and>
     (\<forall>a b. resolution a = Some ''1080p'' \<and> networkSpeed a = Some 250 \<and>
        resolution b = Some ''720p'' \<and> networkSpeed b = Some 100 \<longrightarrow> totalScore b < totalScore a) \<and>
     (\<forall>a b. resolution a = Some ''720p'' \<and> networkSpeed a = Some 1500 \<and>
        resolution b = Some ''360p'' \<and> networkSpeed b = Some 100 \<longrightarrow>
        exactScore a = exactScore b \<and> totalScore a < totalScore b)"
    by (elim conjE) (intro conjI)
  show ?thesis
    using rest ex_store_next av res tie p
    by blast
qed

text \<open>
  The claim as the specification states it fails in three ways. For a latency of 2000 ms or
  more the source gives bucket \<open>4\<close>, not \<open>3\<close>: with a 720p candidate measured at 2500 ms
  discovered before an unmeasured 720p candidate, the specification's scores tie and discovery
  order would select the former; the source selects the latter. The scores are doubles: 720p
  at 1500 ms and 360p at 100 ms both score 2.2 as numbers, so that discovery order would select
  the 720p candidate found first, but the source computes \<open>2.1999999999999997\<close> for it and
  \<open>2.2\<close> for the other and selects the 360p candidate. And the tier is found by searching the
  resolution string: \<open>1920x1080\<close> is none of the four labels, tier \<open>0\<close> in the specification,
  but contains \<open>1080\<close> and gets tier \<open>4\<close> in the source, which selects it over a 720p candidate.
\<close>

theorem latencyBucket_counterexample:
  "(speedScore (networkSpeed ex_slow720) = 4 \<and> spec_latencyBucket (networkSpeed ex_slow720) = 3 \<and>
    getNextAvailableSource ''cur'' 0 ex_slow_store = Some ex_unmeasured720 \<and>
    spec_selectFallback ''cur'' 0 ex_slow_store = Some ex_slow720 \<and>
    ex_slow720 \<noteq> ex_unmeasured720) \<and>
   (spec_score ex_720_1500 = spec_score ex_360_100 \<and>
    totalScore ex_720_1500 = 39631676720860360 \<and> totalScore ex_360_100 = 39631676720860368 \<and>
    spec_selectFallback ''cur'' 0 ex_tie_store = Some ex_720_1500 \<and>
    getNextAvailableSource ''cur'' 0 ex_tie_store = Some ex_360_100 \<and>
    ex_720_1500 \<noteq> ex_360_100) \<and>
   (resolution ex_hls = Some ''1920x1080'' \<and> spec_resolutionTier (resolution ex_hls) = 0 \<and>
    resolutionPriority ''1920x1080'' = 4 \<and>
    spec_selectFallback ''cur'' 0 ex_hls_store = Some ex_unmeasured720 \<and>
    getNextAvailableSource ''cur'' 0 ex_hls_store = Some ex_hls \<and>
    ex_unmeasured720 \<noteq> ex_hls)"
proof -
  have "spec_score ex_slow720 = spec_score ex_unmeasured720"
    by (simp add: spec_score_def spec_latencyBucket_def spec_resolutionTier_def ex_defs)
  then have a: "spec_selectFallback ''cur'' 0 ex_slow_store = Some ex_slow720"
    by (simp add: spec_selectFallback_def ex_store_available)
  have b: "speedScore (networkSpeed ex_slow720) = 4" "spec_latencyBucket (networkSpeed ex_slow720) = 3"
    by (simp_all add: speedScore_def spec_latencyBucket_def ex_defs)
  have c: "ex_slow720 \<noteq> ex_unmeasured720" "ex_720_1500 \<noteq> ex_360_100" "ex_unmeasured720 \<noteq> ex_hls"
    by (simp_all add: ex_defs ex_720_1500_def ex_360_100_def ex_hls_def)
  have tie: "spec_score ex_720_1500 = spec_score ex_360_100"
    by (simp add: spec_score_def spec_latencyBucket_def spec_resolutionTier_def
        ex_720_1500_def ex_360_100_def candidate_def)
  then have d: "spec_selectFallback ''cur'' 0 ex_tie_store = Some ex_720_1500"
    by (simp add: spec_selectFallback_def ex_tie_available)
  have "spec_score ex_hls < spec_score ex_unmeasured720"
    by (simp add: spec_score_def spec_latencyBucket_def spec_resolutionTier_def ex_hls_def ex_defs)
  then have e: "spec_selectFallback ''cur'' 0 ex_hls_store = Some ex_unmeasured720"
    by (simp add: spec_selectFallback_def ex_tie_available)
  have f: "resolution ex_hls = Some ''1920x1080''" "spec_resolutionTier (resolution ex_hls) = 0"
    "resolutionPriority ''1920x1080'' = 4"
    by (simp_all add: ex_hls_def candidate_def spec_resolutionTier_def resolutionPriority_def)
  show ?thesis
    using a b c tie d e f ex_slow_store_next ex_tie_next ex_tie_scores(1,2) by simp
qed

subsection \<open>processAndSetResults\<close>

lemma source_attachResolution [simp]: "source (attachResolution g r) = source r"
  by (simp add: attachResolution_def)

lemma comp_source_attachResolution [simp]: "source \<circ> attachResolution g = source"
  by (rule ext) simp

lemma map_source_attachResolution [simp]:
  "map source (map (attachResolution g) rs) = map source rs"
  by (induction rs) simp_all

lemma filter_new_disjoint:
  "set (map f xs) \<inter> set (map f (filter (\<lambda>r. f r \<notin> set (map f xs)) ys)) = {}"
  by (induction ys) auto

lemma processAndSetResults_distinct:
  assumes "distinct (map source (searchResults st))" and "distinct (map source results)"
  shows "distinct (map source (searchResults (processAndSetResults g aborted results merge st)))"
proof -
  let ?new = "filter (\<lambda>r. source r \<notin> set (map source (searchResults st))) (map (attachResolution g) results)"
  have "distinct (map source (map (attachResolution g) results))"
    using assms(2) by (simp only: map_source_attachResolution)
  then have new: "distinct (map source ?new)"
    by (rule distinct_map_filter)
  have "set (map source (searchResults st)) \<inter> set (map source ?new) = {}"
    by (rule filter_new_disjoint)
  with assms(1) new have "distinct (map source (searchResults st @ ?new))"
    by simp
  then show ?thesis
    using assms by (simp add: processAndSetResults_def Let_def)
qed

lemma runMerges_distinct:
  assumes "distinct (map source (searchResults st))"
    and "\<forall>c\<in>set calls. distinct (map source (mc_results c))"
  shows "distinct (map source (searchResults (runMerges g calls st)))"
  using assms
proof (induction calls arbitrary: st)
  case Nil
  then show ?case by (simp add: runMerges_def)
next
  case (Cons c calls)
  have "distinct (map source (searchResults
          (processAndSetResults g (mc_aborted c) (mc_results c) (mc_merge c) st)))"
    using Cons.prems by (intro processAndSetResults_distinct) simp_all
  from Cons.IH [OF this] Cons.prems(2) show ?case
    by (simp add: runMerges_def)
qed

lemma searchResults_init:
  "searchResults (init g calls favourite st) =
     searchResults (runMerges g calls (st\<lparr>searchResults := [], detail := None\<rparr>))"
  by (simp add: init_def Let_def split: option.split promise.split)

text \<open>
  Claim C9, as amended. A call with \<open>merge = true\<close> keeps the stored results and appends, in
  their order, the results of the call (with their resolution attached, which leaves the source
  as it is) whose source is not yet in \<open>searchResults\<close>; a call with \<open>merge = false\<close> replaces
  \<open>searchResults\<close> by the results of the call; a call whose signal is aborted changes nothing.
  So when no single answer holds two results of the same source, \<open>searchResults\<close> holds no two
  entries of the same source after any sequence of calls, started from a store without
  duplicates and in particular from the cleared store of \<open>init\<close>.
\<close>

theorem processAndSetResults_no_duplicates:
  "searchResults (processAndSetResults getResolution False results True st) =
     searchResults st @
     filter (\<lambda>r. source r \<notin> set (map source (searchResults st)))
       (map (attachResolution getResolution) results) \<and>
   searchResults (processAndSetResults getResolution False results False st) =
     map (attachResolution getResolution) results \<and>
   map source (map (attachResolution getResolution) results) = map source results \<and>
   processAndSetResults getResolution True results merge st = st \<and>
   searchResults (init getResolution calls favourite st) =
     searchResults (runMerges getResolution calls (st\<lparr>searchResults := [], detail := None\<rparr>)) \<and>
   (distinct (map source (searchResults st)) \<and>
    (\<forall>c\<in>set calls. distinct (map source (mc_results c))) \<longrightarrow>
      distinct (map source (searchResults (runMerges getResolution calls st)))) \<and>
   ((\<forall>c\<in>set calls. distinct (map source (mc_results c))) \<longrightarrow>
      distinct (map source (searchResults (init getResolution calls favourite st))))"
proof (intro conjI impI)
  show "searchResults (processAndSetResults getResolution False results True st) =
     searchResults st @
     filter (\<lambda>r. source r \<notin> set (map source (searchResults st)))
       (map (attachResolution getResolution) results)"
    by (simp add: processAndSetResults_def Let_def)
  show "searchResults (processAndSetResults getResolution False results False st) =
     map (attachResolution getResolution) results"
    by (simp add: processAndSetResults_def Let_def)
  show "map source (map (attachResolution getResolution) results) = map source results"
    by (rule map_source_attachResolution)
  show "processAndSetResults getResolution True results merge st = st"
    by (simp add: processAndSetResults_def Let_def)
  show "searchResults (init getResolution calls favourite st) =
     searchResults (runMerges getResolution calls (st\<lparr>searchResults := [], detail := None\<rparr>))"
    by (rule searchResults_init)
next
  assume "distinct (map source (searchResults st)) \<and>
    (\<forall>c\<in>set calls. distinct (map source (mc_results c)))"
  then show "distinct (map source (searchResults (runMerges getResolution calls st)))"
    by (intro runMerges_distinct) simp_all
next
  assume "\<forall>c\<in>set calls. distinct (map source (mc_results c))"
  then have "distinct (map source (searchResults
      (runMerges getResolution calls (st\<lparr>searchResults := [], detail := None\<rparr>))))"
    by (intro runMerges_distinct) simp_all
  then show "distinct (map source (searchResults (init getResolution calls favourite st)))"
    by (simp only: searchResults_init)
qed

lemma ex_answers_result:
  "map source (searchResults (init (\<lambda>u. None) ex_answers (Resolved False) ex_store)) = [''sd'', ''hd'']"
  by (simp add: searchResults_init runMerges_def processAndSetResults_def ex_answers_def Let_def
      ex_defs)

theorem processAndSetResults_no_duplicates_witness:
  "distinct (map source (mc_results (ex_answers ! 0))) \<and>
   distinct (map source (mc_results (ex_answers ! 1))) \<and>
   map source (searchResults (processAndSetResults (\<lambda>u. None) False [ex_b720, ex_a1080] True
     (store_of [ex_b720] (Some ex_b720) {}))) = [''sd'', ''hd''] \<and>
   map source (searchResults (processAndSetResults (\<lambda>u. None) False [ex_b720, ex_a1080] False
     (store_of [ex_current] (Some ex_current) {}))) = [''sd'', ''hd''] \<and>
   map source (searchResults (init (\<lambda>u. None) ex_answers (Resolved False) ex_store)) = [''sd'', ''hd''] \<and>
   distinct (map source (searchResults (init (\<lambda>u. None) ex_answers (Resolved False) ex_store)))"
proof -
  have d: "\<forall>c\<in>set ex_answers. distinct (map source (mc_results c))"
    by (simp add: ex_answers_def ex_defs)
  have e: "distinct (map source (mc_results (ex_answers ! 0)))"
    "distinct (map source (mc_results (ex_answers ! 1)))"
    by (simp_all add: ex_answers_def ex_defs)
  have m: "map source (searchResults (processAndSetResults (\<lambda>u. None) False [ex_b720, ex_a1080] True
     (store_of [ex_b720] (Some ex_b720) {}))) = [''sd'', ''hd'']"
    using processAndSetResults_no_duplicates [where getResolution = "\<lambda>u. None"
        and results = "[ex_b720, ex_a1080]" and st = "store_of [ex_b720] (Some ex_b720) {}"
        and calls = "[]"]
    by (simp add: ex_defs)
  have r: "map source (searchResults (processAndSetResults (\<lambda>u. None) False [ex_b720, ex_a1080] False
     (store_of [ex_current] (Some ex_current) {}))) = [''sd'', ''hd'']"
    using processAndSetResults_no_duplicates [where getResolution = "\<lambda>u. None"
        and results = "[ex_b720, ex_a1080]" and st = "store_of [ex_current] (Some ex_current) {}"
        and calls = "[]"]
    by (simp add: ex_defs)
  show ?thesis
    using processAndSetResults_no_duplicates [where st = ex_store and calls = ex_answers
        and getResolution = "\<lambda>u. None" and favourite = "Resolved False"]
      d e m r ex_answers_result
    by blast
qed

text \<open>
  The claim as stated fails when one backend answers a query with two titles: both results
  carry the source of that backend and both are appended, because only the sources already in
  the store are filtered out.
\<close>

theorem processAndSetResults_duplicates_counterexample:
  "map source (searchResults (init (\<lambda>u. None) [ex_answer] (Resolved False) (store_of [] None {})))
     = [''a'', ''a''] \<and>
   \<not> distinct (map source
       (searchResults (init (\<lambda>u. None) [ex_answer] (Resolved False) (store_of [] None {}))))"
  by (simp add: searchResults_init runMerges_def processAndSetResults_def ex_answer_def Let_def
      ex_title_a_def ex_title_b_def candidate_def store_of_def)

subsection \<open>The probe cache\<close>

lemma fetchAndTest_urls: "snd (snd (fetchAndTest u now fetched st)) = [u]"
  by (simp add: fetchAndTest_def Let_def split: prod.split)

lemma fetchAndTest_ok:
  assumes "response_ok r"
  shows "fetchAndTest u now (Resolved r) st =
     (fr_responseTime r < 4000,
      (cacheResult u now (fr_responseTime r) (st\<lparr>preloadTestAbortController := True\<rparr>))
        \<lparr>preloadTestAbortController := False\<rparr>,
      [u])"
  using assms by (simp add: fetchAndTest_def Let_def)

lemma cachedSources_cacheResult [simp]:
  "cachedSources (cacheResult u now rt st) =
     (cachedSources st)(u \<mapsto> \<lparr>cs_url = u, cs_timestamp = now, responseTime = rt\<rparr>)"
  by (simp add: cacheResult_def)

lemma preloadAndTestSource_miss:
  assumes "case cachedSources st u of None \<Rightarrow> True
           | Some c \<Rightarrow> \<not> now - cs_timestamp c < 5 * 60 * 1000"
  shows "preloadAndTestSource u now fetched st = fetchAndTest u now fetched st"
  using assms by (simp add: preloadAndTestSource_def split: option.splits)

lemma fetchAndTest_failed:
  assumes "fetched = Rejected \<or> (\<exists>r. fetched = Resolved r \<and> \<not> response_ok r)"
  shows "fetchAndTest u now fetched st = (False, st\<lparr>preloadTestAbortController := False\<rparr>, [u])"
  using assms by (auto simp: fetchAndTest_def Let_def response_ok_def)

text \<open>
  Claim C7, as amended. Take a first call that finds no fresh entry for the url. When its fetch
  is answered with a successful response (a status from 200 to 299), the call issues that one
  fetch and caches the measured response time under the url with the time of the call; a second
  call for the same url less than five minutes later fetches nothing and leaves the state as it
  is, so that exactly one fetch is issued by the two calls; and both calls return \<open>true\<close> when
  the response time is below 3000 ms and both return \<open>false\<close> when it is 4000 ms or more. When
  the fetch of the first call fails (it rejects, which includes the timeout, or is answered with
  another status), the call returns \<open>false\<close> and caches nothing, and a later second call fetches
  again.
\<close>

theorem preloadAndTestSource_cached:
  assumes "case cachedSources st u of None \<Rightarrow> True
           | Some c \<Rightarrow> \<not> now1 - cs_timestamp c < 5 * 60 * 1000"
  shows "(response_ok r \<and> now2 - now1 < 5 * 60 * 1000 \<longrightarrow>
            (case preloadAndTestSource u now1 (Resolved r) st of
               (verdict1, st1, urls1) \<Rightarrow>
                 urls1 = [u] \<and>
                 cachedSources st1 =
                   (cachedSources st)(u \<mapsto> \<lparr>cs_url = u, cs_timestamp = now1,
                                            responseTime = fr_responseTime r\<rparr>) \<and>
                 snd (snd (preloadAndTestSource u now2 fetched2 st1)) = [] \<and>
                 fst (snd (preloadAndTestSource u now2 fetched2 st1)) = st1 \<and>
                 (fr_responseTime r < 3000 \<longrightarrow>
                    verdict1 \<and> fst (preloadAndTestSource u now2 fetched2 st1)) \<and>
                 (4000 \<le> fr_responseTime r \<longrightarrow>
                    \<not> verdict1 \<and> \<not> fst (preloadAndTestSource u now2 fetched2 st1)))) \<and>
         ((fetched1 = Rejected \<or> (\<exists>r. fetched1 = Resolved r \<and> \<not> response_ok r)) \<and> now1 \<le> now2 \<longrightarrow>
            (case preloadAndTestSource u now1 fetched1 st of
               (verdict1, st1, urls1) \<Rightarrow>
                 \<not> verdict1 \<and> urls1 = [u] \<and> cachedSources st1 = cachedSources st \<and>
                 snd (snd (preloadAndTestSource u now2 fetched2 st1)) = [u]))"
proof (intro conjI impI)
  assume a: "response_ok r \<and> now2 - now1 < 5 * 60 * 1000"
  let ?st1 = "(cacheResult u now1 (fr_responseTime r) (st\<lparr>preloadTestAbortController := True\<rparr>))
        \<lparr>preloadTestAbortController := False\<rparr>"
  have first: "preloadAndTestSource u now1 (Resolved r) st = (fr_responseTime r < 4000, ?st1, [u])"
    using a by (simp add: preloadAndTestSource_miss [OF assms] fetchAndTest_ok)
  have second: "preloadAndTestSource u now2 fetched2 ?st1 = (fr_responseTime r < 3000, ?st1, [])"
    using a by (simp add: preloadAndTestSource_def)
  show "case preloadAndTestSource u now1 (Resolved r) st of
               (verdict1, st1, urls1) \<Rightarrow>
                 urls1 = [u] \<and>
                 cachedSources st1 =
                   (cachedSources st)(u \<mapsto> \<lparr>cs_url = u, cs_timestamp = now1,
                                            responseTime = fr_responseTime r\<rparr>) \<and>
                 snd (snd (preloadAndTestSource u now2 fetched2 st1)) = [] \<and>
                 fst (snd (preloadAndTestSource u now2 fetched2 st1)) = st1 \<and>
                 (fr_responseTime r < 3000 \<longrightarrow>
                    verdict1 \<and> fst (preloadAndTestSource u now2 fetched2 st1)) \<and>
                 (4000 \<le> fr_responseTime r \<longrightarrow>
                    \<not> verdict1 \<and> \<not> fst (preloadAndTestSource u now2 fetched2 st1))"
    unfolding first prod.case second by auto
next
  assume b: "(fetched1 = Rejected \<or> (\<exists>r. fetched1 = Resolved r \<and> \<not> response_ok r)) \<and> now1 \<le> now2"
  let ?st1 = "st\<lparr>preloadTestAbortController := False\<rparr>"
  have first: "preloadAndTestSource u now1 fetched1 st = (False, ?st1, [u])"
    using b by (simp add: preloadAndTestSource_miss [OF assms] fetchAndTest_failed)
  have stale: "case cachedSources ?st1 u of None \<Rightarrow> True
           | Some c \<Rightarrow> \<not> now2 - cs_timestamp c < 5 * 60 * 1000"
    using assms b by (auto split: option.splits)
  have "snd (snd (preloadAndTestSource u now2 fetched2 ?st1)) = [u]"
    by (simp add: preloadAndTestSource_miss [OF stale] fetchAndTest_urls)
  then show "case preloadAndTestSource u now1 fetched1 st of
               (verdict1, st1, urls1) \<Rightarrow>
                 \<not> verdict1 \<and> urls1 = [u] \<and> cachedSources st1 = cachedSources st \<and>
                 snd (snd (preloadAndTestSource u now2 fetched2 st1)) = [u]"
    unfolding first prod.case by simp
qed

theorem preloadAndTestSource_cached_witness:
  "response_ok \<lparr>fr_status = 206, fr_responseTime = 850\<rparr> \<and>
   \<not> response_ok \<lparr>fr_status = 404, fr_responseTime = 90\<rparr> \<and>
   cachedSources fresh_player ex_mp4 = None \<and>
   (case preloadAndTestSource ex_mp4 1000 (Resolved \<lparr>fr_status = 206, fr_responseTime = 850\<rparr>)
           fresh_player of
      (verdict1, st1, urls1) \<Rightarrow>
        verdict1 \<and> urls1 = [ex_mp4] \<and>
        cachedSources st1 ex_mp4 =
          Some \<lparr>cs_url = ex_mp4, cs_timestamp = 1000, responseTime = 850\<rparr> \<and>
        fst (preloadAndTestSource ex_mp4 200000 Rejected st1) \<and>
        snd (snd (preloadAndTestSource ex_mp4 200000 Rejected st1)) = []) \<and>
   (case preloadAndTestSource ex_mp4 1000 (Resolved \<lparr>fr_status = 404, fr_responseTime = 90\<rparr>)
           fresh_player of
      (verdict1, st1, urls1) \<Rightarrow>
        \<not> verdict1 \<and> urls1 = [ex_mp4] \<and> cachedSources st1 ex_mp4 = None \<and>
        snd (snd (preloadAndTestSource ex_mp4 200000 Rejected st1)) = [ex_mp4])"
proof -
  have ok: "response_ok \<lparr>fr_status = 206, fr_responseTime = 850\<rparr>"
    "\<not> response_ok \<lparr>fr_status = 404, fr_responseTime = 90\<rparr>"
    by (simp_all add: response_ok_def)
  have none: "cachedSources fresh_player ex_mp4 = None"
    by (simp add: fresh_player_def)
  have miss: "case cachedSources fresh_player ex_mp4 of None \<Rightarrow> True
           | Some c \<Rightarrow> \<not> 1000 - cs_timestamp c < 5 * 60 * 1000"
    by (simp add: none)
  from preloadAndTestSource_cached [OF miss, where r = "\<lparr>fr_status = 206, fr_responseTime = 850\<rparr>"
      and ?now2.0 = 200000 and ?fetched2.0 = Rejected
      and ?fetched1.0 = "Resolved \<lparr>fr_status = 404, fr_responseTime = 90\<rparr>"]
  show ?thesis
    using ok none by (auto split: prod.splits)
qed

text \<open>
  The claim as stated fails in two ways. A fetch that fails (here: rejects) is not cached, so the
  second call fetches again. And a response time of 3500 ms gives the verdict \<open>true\<close> on the first
  call (below 4000) and the verdict \<open>false\<close> from the cache (not below 3000).
\<close>

theorem preloadAndTestSource_cache_counterexample:
  "probeTwice ex_mp4 1000 Rejected 2000 Rejected fresh_player = (False, False, [ex_mp4, ex_mp4]) \<and>
   probeTwice ex_mp4 1000 (Resolved \<lparr>fr_status = 200, fr_responseTime = 3500\<rparr>) 2000 Rejected fresh_player
     = (True, False, [ex_mp4])"
  by (simp add: probeTwice_def preloadAndTestSource_def fetchAndTest_def fresh_player_def
      cacheResult_def response_ok_def endsWith_def ex_mp4_def Let_def)

subsection \<open>handleVideoError\<close>

lemma effects_emit [simp]: "effects (emit e w) = effects w @ [e]"
  by (simp add: emit_def)

lemma player_emit [simp]: "player (emit e w) = player w"
  by (simp add: emit_def)

lemma detailStore_emit [simp]: "detailStore (emit e w) = detailStore w"
  by (simp add: emit_def)

lemma timers_emit [simp]: "timers (emit e w) = timers w"
  by (simp add: emit_def)

lemma setLoading_simps [simp]:
  "effects (setLoading b w) = effects w"
  "detailStore (setLoading b w) = detailStore w"
  "timers (setLoading b w) = timers w"
  "player (setLoading b w) = (player w)\<lparr>isLoading := b\<rparr>"
  by (simp_all add: setLoading_def)

lemma handleVideoError_no_fallback:
  assumes "detail (detailStore w) = Some d"
    and "getNextAvailableSource (source d) (currentEpisodeIndex (player w))
           (markSourceAsFailed (source d) (detailStore w)) = None"
  shows "handleVideoError errorType failedUrl favourite w =
     setLoading False (emit (ToastShow ToastAllSourcesUnavailable)
       ((emit (HandleVideoError errorType failedUrl) w)
          \<lparr>detailStore := markSourceAsFailed (source d) (detailStore w)\<rparr>))"
  using assms by (simp add: handleVideoError_def Let_def)

lemma markSourceAsFailed_idem [simp]:
  "markSourceAsFailed src (markSourceAsFailed src st) = markSourceAsFailed src st"
  by (simp add: markSourceAsFailed_def)

lemma markSourceAsFailed_simps [simp]:
  "detail (markSourceAsFailed src st) = detail st"
  "searchResults (markSourceAsFailed src st) = searchResults st"
  "failedSources (markSourceAsFailed src st) = insert src (failedSources st)"
  by (simp_all add: markSourceAsFailed_def)

text \<open>
  Claim C4, as amended. When \<open>handleVideoError\<close> is invoked and \<open>getNextAvailableSource\<close> finds no
  candidate, the active detail, the search results, the episode list and the episode index
  are left as they were, and the failure "all sources unavailable" is shown exactly once by
  that invocation. A further invocation in the state it leaves finds no candidate either and
  shows the failure once more.
\<close>

theorem handleVideoError_exhausted:
  assumes "detail (detailStore w) = Some d"
    and "getNextAvailableSource (source d) (currentEpisodeIndex (player w))
           (markSourceAsFailed (source d) (detailStore w)) = None"
  shows "let w1 = handleVideoError errorType failedUrl favourite w;
             w2 = handleVideoError errorType' failedUrl' favourite' w1
         in detail (detailStore w1) = Some d \<and>
            searchResults (detailStore w1) = searchResults (detailStore w) \<and>
            ps_episodes (player w1) = ps_episodes (player w) \<and>
            currentEpisodeIndex (player w1) = currentEpisodeIndex (player w) \<and>
            exhaustedToasts w1 = exhaustedToasts w + 1 \<and>
            detail (detailStore w2) = Some d \<and>
            ps_episodes (player w2) = ps_episodes (player w) \<and>
            exhaustedToasts w2 = exhaustedToasts w + 2"
proof -
  let ?w1 = "handleVideoError errorType failedUrl favourite w"
  have w1: "?w1 = setLoading False (emit (ToastShow ToastAllSourcesUnavailable)
       ((emit (HandleVideoError errorType failedUrl) w)
          \<lparr>detailStore := markSourceAsFailed (source d) (detailStore w)\<rparr>))"
    by (rule handleVideoError_no_fallback [OF assms])
  have d1: "detail (detailStore ?w1) = Some d"
    and idx1: "currentEpisodeIndex (player ?w1) = currentEpisodeIndex (player w)"
    and st1: "detailStore ?w1 = markSourceAsFailed (source d) (detailStore w)"
    using assms(1) by (simp_all add: w1)
  have none1: "getNextAvailableSource (source d) (currentEpisodeIndex (player ?w1))
           (markSourceAsFailed (source d) (detailStore ?w1)) = None"
    using assms(2) by (simp add: idx1 st1)
  have w2: "handleVideoError errorType' failedUrl' favourite' ?w1 =
     setLoading False (emit (ToastShow ToastAllSourcesUnavailable)
       ((emit (HandleVideoError errorType' failedUrl') ?w1)
          \<lparr>detailStore := markSourceAsFailed (source d) (detailStore ?w1)\<rparr>))"
    by (rule handleVideoError_no_fallback [OF d1 none1])
  have one: "exhaustedToasts ?w1 = exhaustedToasts w + 1"
    by (simp add: w1 exhaustedToasts_def)
  have two: "exhaustedToasts (handleVideoError errorType' failedUrl' favourite' ?w1) =
      exhaustedToasts ?w1 + 1"
    by (simp add: w2 exhaustedToasts_def)
  have same1: "searchResults (detailStore ?w1) = searchResults (detailStore w)"
    "ps_episodes (player ?w1) = ps_episodes (player w)"
    by (simp_all add: w1)
  have same2: "detail (detailStore (handleVideoError errorType' failedUrl' favourite' ?w1)) = Some d"
    "ps_episodes (player (handleVideoError errorType' failedUrl' favourite' ?w1)) =
       ps_episodes (player ?w1)"
    using d1 by (simp_all add: w2)
  show ?thesis
    using d1 idx1 one two same1 same2 by (simp add: Let_def)
qed

lemma ex_world_exhausted_none:
  "getNextAvailableSource (source ex_current) (currentEpisodeIndex (player ex_world_exhausted))
     (markSourceAsFailed (source ex_current) (detailStore ex_world_exhausted)) = None"
  by (simp add: getNextAvailableSource_eq availableSources_def ex_world_exhausted_def world_of_def
      ex_player_def fresh_player_def ex_defs)

theorem handleVideoError_exhausted_witness:
  "detail (detailStore ex_world_exhausted) = Some ex_current \<and>
   exhaustedToasts ex_world_exhausted = 0 \<and>
   detail (detailStore (handleVideoError Other ''http://cur/1.m3u8'' Rejected ex_world_exhausted)) =
     Some ex_current \<and>
   ps_episodes (player (handleVideoError Other ''http://cur/1.m3u8'' Rejected ex_world_exhausted)) =
     ps_episodes (player ex_world_exhausted) \<and>
   exhaustedToasts (handleVideoError Other ''http://cur/1.m3u8'' Rejected ex_world_exhausted) = 1"
proof -
  have d: "detail (detailStore ex_world_exhausted) = Some ex_current"
    by (simp add: ex_world_exhausted_def world_of_def ex_exhausted_def store_of_def)
  have z: "exhaustedToasts ex_world_exhausted = 0"
    by (simp add: exhaustedToasts_def ex_world_exhausted_def world_of_def)
  show ?thesis
    using handleVideoError_exhausted [OF d ex_world_exhausted_none,
        of Other "''http://cur/1.m3u8''" Rejected Other "''http://cur/1.m3u8''" Rejected] d z
    by (simp add: Let_def)
qed

text \<open>
  The claim as stated fails: nothing remembers that the failure has been shown. Two error ticks
  in a row each invoke \<open>handleVideoError\<close>, and each invocation shows the failure.
\<close>

theorem handleVideoError_duplicate_toast_counterexample:
  "exhaustedToasts
     (handleVideoError Other ''http://cur/1.m3u8'' (Resolved False)
        (handleVideoError Other ''http://cur/1.m3u8'' (Resolved False) ex_world_exhausted)) = 2"
proof -
  have d: "detail (detailStore ex_world_exhausted) = Some ex_current"
    by (simp add: ex_world_exhausted_def world_of_def ex_exhausted_def store_of_def)
  have first: "handleVideoError Other ''http://cur/1.m3u8'' (Resolved False) ex_world_exhausted =
     setLoading False (emit (ToastShow ToastAllSourcesUnavailable)
       ((emit (HandleVideoError Other ''http://cur/1.m3u8'') ex_world_exhausted)
          \<lparr>detailStore := markSourceAsFailed (source ex_current) (detailStore ex_world_exhausted)\<rparr>))"
    by (rule handleVideoError_no_fallback [OF d ex_world_exhausted_none])
  let ?w1 = "setLoading False (emit (ToastShow ToastAllSourcesUnavailable)
       ((emit (HandleVideoError Other ''http://cur/1.m3u8'') ex_world_exhausted)
          \<lparr>detailStore := markSourceAsFailed (source ex_current) (detailStore ex_world_exhausted)\<rparr>))"
  have d1: "detail (detailStore ?w1) = Some ex_current"
    using d by simp
  have none1: "getNextAvailableSource (source ex_current) (currentEpisodeIndex (player ?w1))
     (markSourceAsFailed (source ex_current) (detailStore ?w1)) = None"
    using ex_world_exhausted_none by simp
  have second: "handleVideoError Other ''http://cur/1.m3u8'' (Resolved False) ?w1 =
     setLoading False (emit (ToastShow ToastAllSourcesUnavailable)
       ((emit (HandleVideoError Other ''http://cur/1.m3u8'') ?w1)
          \<lparr>detailStore := markSourceAsFailed (source ex_current) (detailStore ?w1)\<rparr>))"
    by (rule handleVideoError_no_fallback [OF d1 none1])
  have "effects ex_world_exhausted = []"
    by (simp add: ex_world_exhausted_def world_of_def)
  then show ?thesis
    unfolding first second by (simp add: exhaustedToasts_def)
qed

lemma map_url_mapEpisodes [simp]: "map url (mapEpisodes eps) = eps"
  by (simp add: mapEpisodes_def map_fst_zip comp_def case_prod_unfold)

lemma length_mapEpisodes [simp]: "length (mapEpisodes eps) = length eps"
  by (simp add: mapEpisodes_def)

lemma handleVideoError_fallback:
  assumes "detail (detailStore w) = Some d"
    and "getNextAvailableSource (source d) (currentEpisodeIndex (player w))
           (markSourceAsFailed (source d) (detailStore w)) = Some fb"
  shows "handleVideoError errorType failedUrl (Resolved b) w =
     (if currentEpisodeIndex (player w) < 0 then id
      else emit (ToastShow (ToastSourceSwitched (source_name fb))))
       ((emit (HandleVideoError errorType failedUrl) w)
          \<lparr>detailStore := (markSourceAsFailed (source d) (detailStore w))
                             \<lparr>detail := Some fb, isFavorited := b\<rparr>,
           player := (player w)
             \<lparr>ps_episodes := mapEpisodes (episodes fb),
              initialPosition :=
                (case status (player w) of
                   Some s \<Rightarrow> if isLoaded s \<and> positionMillis s \<noteq> 0 then positionMillis s else 0
                 | None \<Rightarrow> 0),
              isLoading := False\<rparr>\<rparr>)"
proof -
  from getNextAvailableSource_mem [OF assms(2)]
  have "int (length (episodes fb)) > currentEpisodeIndex (player w)"
    by (simp add: availableSources_def)
  then show ?thesis
    using assms by (simp add: handleVideoError_def Let_def setDetail_def setLoading_def)
qed

text \<open>
  Claim C5, as amended. Whenever \<open>handleVideoError\<close> finds a fallback candidate and the favourite
  lookup of \<open>setDetail\<close> succeeds, it makes the candidate the active detail, replaces the episode
  list by the episode urls of the candidate, keeps the episode index, and sets \<open>initialPosition\<close>
  to \<open>status.positionMillis\<close> when the stored status is loaded and to zero when no loaded status
  is stored. The new active source is not among the failed sources.
\<close>

theorem handleVideoError_switches:
  assumes "detail (detailStore w) = Some d"
    and "getNextAvailableSource (source d) (currentEpisodeIndex (player w))
           (markSourceAsFailed (source d) (detailStore w)) = Some fb"
  shows "let w1 = handleVideoError errorType failedUrl (Resolved b) w
         in detail (detailStore w1) = Some fb \<and>
            ps_episodes (player w1) = mapEpisodes (episodes fb) \<and>
            map url (ps_episodes (player w1)) = episodes fb \<and>
            int (length (ps_episodes (player w1))) > currentEpisodeIndex (player w1) \<and>
            currentEpisodeIndex (player w1) = currentEpisodeIndex (player w) \<and>
            initialPosition (player w1) =
              (case status (player w) of
                 Some s \<Rightarrow> if isLoaded s then positionMillis s else 0
               | None \<Rightarrow> 0) \<and>
            source fb \<notin> failedSources (detailStore w1)"
proof -
  from getNextAvailableSource_mem [OF assms(2)]
  have fb: "int (length (episodes fb)) > currentEpisodeIndex (player w)"
    "source fb \<notin> insert (source d) (failedSources (detailStore w))"
    by (simp_all add: availableSources_def)
  show ?thesis
    using fb
    by (simp add: handleVideoError_fallback [OF assms] Let_def split: option.split)
qed

lemma ex_world_next:
  "getNextAvailableSource (source ex_current) (currentEpisodeIndex (player ex_world))
     (markSourceAsFailed (source ex_current) (detailStore ex_world)) = Some ex_a1080"
  "getNextAvailableSource (source ex_current) (currentEpisodeIndex (player ex_world_resuming))
     (markSourceAsFailed (source ex_current) (detailStore ex_world_resuming)) = Some ex_a1080"
  by (simp_all add: getNextAvailableSource_eq availableSources_def ex_world_def
      ex_world_resuming_def world_of_def ex_player_def fresh_player_def ex_defs ex_scores
      totalScore_def resolutionPriority_examples speedScore_def score_table del: One_nat_def)

theorem handleVideoError_switches_witness:
  "detail (detailStore ex_world) = Some ex_current \<and>
   status (player ex_world) = Some (playing_status 90000) \<and>
   detail (detailStore (handleVideoError Network ''http://cur/1.m3u8'' (Resolved False) ex_world)) =
     Some ex_a1080 \<and>
   map url (ps_episodes (player (handleVideoError Network ''http://cur/1.m3u8'' (Resolved False) ex_world))) =
     [''http://hd/1.m3u8''] \<and>
   initialPosition (player (handleVideoError Network ''http://cur/1.m3u8'' (Resolved False) ex_world)) =
     90000"
proof -
  have d: "detail (detailStore ex_world) = Some ex_current"
    by (simp add: ex_world_def world_of_def ex_store_def store_of_def)
  have s: "status (player ex_world) = Some (playing_status 90000)"
    by (simp add: ex_world_def world_of_def ex_player_def)
  have e: "episodes ex_a1080 = [''http://hd/1.m3u8'']"
    by (simp add: ex_defs)
  show ?thesis
    using handleVideoError_switches [OF d ex_world_next(1), of Network "''http://cur/1.m3u8''" False]
      d s e
    by (simp add: Let_def playing_status_def)
qed

text \<open>
  The claim as stated fails in two cases. When the favourite lookup inside \<open>setDetail\<close> rejects,
  the active detail has already been replaced, but the episode list and \<open>initialPosition\<close> are
  not set (the catch branch of line 891). And when no loaded status is stored, \<open>initialPosition\<close>
  is set to zero, here overwriting the resume position 12000.
\<close>

theorem handleVideoError_switch_counterexample:
  "(let w1 = handleVideoError Network ''http://cur/1.m3u8'' Rejected ex_world
    in detail (detailStore w1) = Some ex_a1080 \<and>
       map url (ps_episodes (player w1)) = [''http://cur/1.m3u8''] \<and>
       positionMillis (playing_status 90000) = 90000 \<and>
       status (player ex_world) = Some (playing_status 90000) \<and>
       initialPosition (player w1) = 0) \<and>
   (let w2 = handleVideoError Other ''http://cur/1.m3u8'' (Resolved False) ex_world_resuming
    in initialPosition (player ex_world_resuming) = 12000 \<and>
       detail (detailStore w2) = Some ex_a1080 \<and>
       initialPosition (player w2) = 0)"
proof -
  have d: "detail (detailStore ex_world) = Some ex_current"
    by (simp add: ex_world_def world_of_def ex_store_def store_of_def)
  have d2: "detail (detailStore ex_world_resuming) = Some ex_current"
    by (simp add: ex_world_resuming_def world_of_def ex_store_def store_of_def)
  have rejected: "handleVideoError Network ''http://cur/1.m3u8'' Rejected ex_world =
      setLoading False ((emit (HandleVideoError Network ''http://cur/1.m3u8'') ex_world)
        \<lparr>detailStore := (markSourceAsFailed (source ex_current) (detailStore ex_world))
                           \<lparr>detail := Some ex_a1080\<rparr>\<rparr>)"
    using d ex_world_next(1) by (simp add: handleVideoError_def Let_def setDetail_def)
  have eps: "map url (ps_episodes (player ex_world)) = [''http://cur/1.m3u8'']"
    "initialPosition (player ex_world) = 0" "status (player ex_world) = Some (playing_status 90000)"
    by (simp_all add: ex_world_def world_of_def ex_player_def fresh_player_def ex_defs)
  have res: "initialPosition (player ex_world_resuming) = 12000"
    "status (player ex_world_resuming) = Some unloaded_status"
    by (simp_all add: ex_world_resuming_def world_of_def)
  show ?thesis
    using eps res
    by (simp add: rejected handleVideoError_fallback [OF d2 ex_world_next(2)] Let_def
        playing_status_def unloaded_status_def)
qed

subsection \<open>loadVideo\<close>

lemma ex_two_sources_resolve:
  "loadVideo_resolve ex_options (ex_env fetch1) ex_world_two_sources =
     (setLoading True ex_world_two_sources, Some (ex_current, [''http://cur/1.m3u8'']))"
  by (simp add: loadVideo_resolve_def Let_def ex_world_two_sources_def world_of_def store_of_def
      episodesSelectorBySource_def ex_options_def ex_current_def ex_a1080_def candidate_def)

lemma ex_two_sources_next:
  "getNextAvailableSource ''cur'' 0
     \<lparr>searchResults = [ex_current, ex_a1080], detail = Some ex_current, failedSources = {},
      isFavorited = False\<rparr> = Some ex_a1080"
  by (simp add: getNextAvailableSource_eq availableSources_def store_of_def ex_current_def
      ex_a1080_def candidate_def)

lemma ex_two_sources_preload:
  "loadVideo_preload ex_options (ex_env Rejected) ex_current [''http://cur/1.m3u8'']
       (setLoading True ex_world_two_sources) =
     ((world_of
         ((store_of [ex_current, ex_a1080] (Some ex_a1080) {''hd''})\<lparr>isFavorited := False\<rparr>)
         (cacheResult ''http://hd/1.m3u8'' 1008000 120 fresh_player))
        \<lparr>effects := [Fetch ''http://cur/1.m3u8'', Fetch ''http://hd/1.m3u8'']\<rparr>,
      Some (ex_a1080, [''http://hd/1.m3u8'']))"
proof -
  have src: "source ex_current = ''cur''" "source ex_a1080 = ''hd''"
    "episodes ex_a1080 = [''http://hd/1.m3u8'']"
    by (simp_all add: ex_current_def ex_a1080_def candidate_def)
  have st: "detailStore ex_world_two_sources = store_of [ex_current, ex_a1080] (Some ex_current) {}"
    "player ex_world_two_sources = fresh_player" "effects ex_world_two_sources = []"
    by (simp_all add: ex_world_two_sources_def world_of_def)
  show ?thesis
    by (simp add: loadVideo_preload_def Let_def js_index_def ex_options_def ex_env_def st src
        preloadAndTestSource_def fetchAndTest_def response_ok_def endsWith_def
        ex_two_sources_next setDetail_def setTimeout_def world_of_def
        markSourceAsFailed_def store_of_def cacheResult_def fresh_player_def
        ex_world_two_sources_def setLoading_def)
qed

lemma ex_two_sources_restore:
  "loadVideo_restore ex_options (ex_env Rejected) ex_a1080 [''http://hd/1.m3u8'']
     ((world_of
         ((store_of [ex_current, ex_a1080] (Some ex_a1080) {''hd''})\<lparr>isFavorited := False\<rparr>)
         (cacheResult ''http://hd/1.m3u8'' 1008000 120 fresh_player))
        \<lparr>effects := [Fetch ''http://cur/1.m3u8'', Fetch ''http://hd/1.m3u8'']\<rparr>) =
   (world_of
         ((store_of [ex_current, ex_a1080] (Some ex_a1080) {''hd''})\<lparr>isFavorited := False\<rparr>)
         ((cacheResult ''http://hd/1.m3u8'' 1008000 120 fresh_player)
            \<lparr>isLoading := False, currentEpisodeIndex := 0, initialPosition := 0, playbackRate := 1,
             ps_episodes := mapEpisodes [''http://hd/1.m3u8''], introEndTime := None,
             outroStartTime := None\<rparr>))
        \<lparr>effects := [Fetch ''http://cur/1.m3u8'', Fetch ''http://hd/1.m3u8'']\<rparr>"
  by (simp add: loadVideo_restore_def Let_def ex_options_def ex_env_def world_of_def
      PlayRecordManager_get_def PlayerSettingsManager_get_def js_or_def)

text \<open>
  Claim C6 fails on the source. \<open>loadVideo\<close> is called while the source \<open>cur\<close> is active; the
  probe of its episode url fails, the probe of the next available source \<open>hd\<close> succeeds, and
  \<open>loadVideo\<close> switches to \<open>hd\<close>. Line 359 then marks \<^verbatim>\<open>detail.source\<close> as failed after line 356
  has made \<^verbatim>\<open>detail\<close> the fallback: the source marked is \<open>hd\<close>, the one that is now active and
  whose episodes are loaded, and not \<open>cur\<close>, the one whose probe failed.
\<close>

theorem loadVideo_marks_active_source_failed:
  "(let w1 = fst (loadVideo ex_options (ex_env Rejected) ex_world_two_sources)
    in detail (detailStore w1) = Some ex_a1080 \<and>
       source ex_a1080 = ''hd'' \<and>
       failedSources (detailStore w1) = {''hd''} \<and>
       map url (ps_episodes (player w1)) = [''http://hd/1.m3u8''] \<and>
       currentEpisodeIndex (player w1) = 0 \<and>
       isLoading (player w1) = False) \<and>
   detail (detailStore ex_world_two_sources) = Some ex_current \<and>
   source ex_current = ''cur'' \<and>
   failedSources (detailStore ex_world_two_sources) = {}"
proof -
  have "loadVideo ex_options (ex_env Rejected) ex_world_two_sources =
    ((world_of
         ((store_of [ex_current, ex_a1080] (Some ex_a1080) {''hd''})\<lparr>isFavorited := False\<rparr>)
         ((cacheResult ''http://hd/1.m3u8'' 1008000 120 fresh_player)
            \<lparr>isLoading := False, currentEpisodeIndex := 0, initialPosition := 0, playbackRate := 1,
             ps_episodes := mapEpisodes [''http://hd/1.m3u8''], introEndTime := None,
             outroStartTime := None\<rparr>))
        \<lparr>effects := [Fetch ''http://cur/1.m3u8'', Fetch ''http://hd/1.m3u8'']\<rparr>, True)"
    by (simp only: loadVideo_def ex_two_sources_resolve ex_two_sources_preload
        ex_two_sources_restore prod.case option.case)
  moreover have "source ex_a1080 = ''hd''" "source ex_current = ''cur''"
    by (simp_all add: ex_a1080_def ex_current_def candidate_def)
  ultimately show ?thesis
    by (simp add: Let_def world_of_def store_of_def ex_world_two_sources_def)
qed

lemma storage_setLoading [simp]:
  "playRecords (setLoading b w) = playRecords w"
  "playerSettings (setLoading b w) = playerSettings w"
  by (simp_all add: setLoading_def)

lemma storage_setTimeout [simp]:
  "playRecords (fst (setTimeout task delay now w)) = playRecords w"
  "playerSettings (fst (setTimeout task delay now w)) = playerSettings w"
  by (simp_all add: setTimeout_def)

lemma storage_resolve:
  "playRecords (fst (loadVideo_resolve opts env w)) = playRecords w \<and>
   playerSettings (fst (loadVideo_resolve opts env w)) = playerSettings w"
  by (simp add: loadVideo_resolve_def Let_def split: option.split)

lemma storage_preload:
  "playRecords (fst (loadVideo_preload opts env d eps w)) = playRecords w \<and>
   playerSettings (fst (loadVideo_preload opts env d eps w)) = playerSettings w"
  by (auto simp: loadVideo_preload_def Let_def split: option.splits prod.splits if_splits)

lemma fst_loadVideo:
  assumes "snd (loadVideo_resolve opts env w) = Some (d, eps)"
    and "snd (loadVideo_preload opts env d eps (fst (loadVideo_resolve opts env w))) = Some (d2, eps2)"
  shows "fst (loadVideo opts env w) =
     loadVideo_restore opts env d2 eps2
       (fst (loadVideo_preload opts env d eps (fst (loadVideo_resolve opts env w))))"
  using assms by (simp add: loadVideo_def case_prod_beta)

lemma savePlayRecord_stored:
  assumes "detail (detailStore w) = Some d" and "status (player w) = Some s" and "isLoaded s"
    and "immediate \<or> \<not> isRecordSaveThrottled (player w)"
  shows "\<exists>r. playRecords (savePlayRecord noUpdates immediate now w) (source d, vid d) = Some r \<and>
           pr_play_time r = positionMillis s div 1000 \<and>
           pr_introEndTime r = introEndTime (player w) \<and>
           pr_outroStartTime r = outroStartTime (player w)"
    and "playerSettings (savePlayRecord noUpdates immediate now w) = playerSettings w"
  using assms
  by (auto simp: savePlayRecord_def Let_def PlayRecordManager_save_def noUpdates_def setTimeout_def)

lemma loadVideo_restore_player:
  assumes "env_storageOk env" and "lv_position opts = None"
    and "playRecords w (source d, vid d) = Some r"
  shows "initialPosition (player (loadVideo_restore opts env d eps w)) = pr_play_time r * 1000"
    and "introEndTime (player (loadVideo_restore opts env d eps w)) =
           js_or (pr_introEndTime r)
             (case playerSettings w (source d, vid d) of
                Some x \<Rightarrow> set_introEndTime x | None \<Rightarrow> None)"
    and "outroStartTime (player (loadVideo_restore opts env d eps w)) =
           js_or (pr_outroStartTime r)
             (case playerSettings w (source d, vid d) of
                Some x \<Rightarrow> set_outroStartTime x | None \<Rightarrow> None)"
  using assms
  by (simp_all add: loadVideo_restore_def Let_def PlayRecordManager_get_def
      PlayerSettingsManager_get_def js_or_def)

lemma loadVideo_resolve_cached:
  assumes "detail (detailStore w) = Some d" and "source d \<noteq> []" and "title d = lv_title opts"
    and "episodesSelectorBySource (source d) (detailStore w) \<noteq> []"
  shows "loadVideo_resolve opts env w =
     (setLoading True w, Some (d, episodesSelectorBySource (source d) (detailStore w)))"
  using assms by (auto simp: loadVideo_resolve_def Let_def)

lemma preloadAndTestSource_verdict_cong:
  assumes "cachedSources p' = cachedSources p"
  shows "fst (preloadAndTestSource u now fetched p') = fst (preloadAndTestSource u now fetched p)"
  using assms
  by (simp add: preloadAndTestSource_def fetchAndTest_def Let_def
      split: option.split promise.split prod.split)

lemma loadVideo_preload_good:
  assumes "0 \<le> lv_episodeIndex opts" and "lv_episodeIndex opts < int (length eps)"
    and "fst (preloadAndTestSource (eps ! nat (lv_episodeIndex opts)) (env_now1 env) (env_fetch1 env)
           (player w))"
  shows "snd (loadVideo_preload opts env d eps w) = Some (d, eps)"
proof -
  let ?url = "eps ! nat (lv_episodeIndex opts)"
  let ?p1 = "(player w)\<lparr>preloadingEpisode := Some ?url\<rparr>"
  have idx: "js_index eps (lv_episodeIndex opts) = Some ?url"
    using assms(1,2) by (rule js_index_in_range)
  have "fst (preloadAndTestSource ?url (env_now1 env) (env_fetch1 env) ?p1)"
    using assms(3) preloadAndTestSource_verdict_cong [of ?p1 "player w"] by simp
  then obtain p2 urls where
    "preloadAndTestSource ?url (env_now1 env) (env_fetch1 env) ?p1 = (True, p2, urls)"
    by (cases "preloadAndTestSource ?url (env_now1 env) (env_fetch1 env) ?p1") auto
  then show ?thesis
    using assms(2) idx by (simp add: loadVideo_preload_def Let_def)
qed

text \<open>
  Claim C8, as amended. A play record saved by \<open>_savePlayRecord\<close> (without updates, with a
  loaded status, for the active detail, immediately or let through by the throttle) holds the
  position in whole seconds. Let \<open>loadVideo\<close> later be called, on the storage as the save left
  it, without an explicit position while that detail is the active one (its source id not
  empty), for the title of the detail, with an episode index inside the episode list of its
  source, the probe of the url of that episode (\<open>_preloadAndTestSource\<close>) returning \<open>true\<close>, and
  the storage reads succeeding. Then \<open>loadVideo\<close> stays on that source, reads the record
  under the source and id of the detail, and sets \<open>initialPosition\<close> to the saved position
  rounded down to a full second, \<open>(position div 1000) * 1000\<close>; it restores an intro or outro
  marker exactly when the saved marker is set and not zero, and takes it from the stored player
  settings otherwise; the episode index and the episode urls are those of the call and of the
  source.
\<close>

theorem savePlayRecord_loadVideo_roundtrip:
  assumes "detail (detailStore w) = Some d" and "status (player w) = Some s" and "isLoaded s"
    and "immediate \<or> \<not> isRecordSaveThrottled (player w)"
    and "detail (detailStore w2) = Some d"
    and "playRecords w2 = playRecords (savePlayRecord noUpdates immediate now w)"
    and "playerSettings w2 = playerSettings (savePlayRecord noUpdates immediate now w)"
    and "source d \<noteq> []" and "lv_title opts = title d"
    and "0 \<le> lv_episodeIndex opts"
    and "lv_episodeIndex opts < int (length (episodesSelectorBySource (source d) (detailStore w2)))"
    and "fst (preloadAndTestSource
               (episodesSelectorBySource (source d) (detailStore w2) ! nat (lv_episodeIndex opts))
               (env_now1 env) (env_fetch1 env) (player w2))"
    and "env_storageOk env" and "lv_position opts = None"
  shows "snd (loadVideo opts env w2) \<and>
         (let p = player (fst (loadVideo opts env w2))
          in initialPosition p = (positionMillis s div 1000) * 1000 \<and>
             introEndTime p =
               js_or (introEndTime (player w))
                 (case playerSettings w (source d, vid d) of
                    Some x \<Rightarrow> set_introEndTime x | None \<Rightarrow> None) \<and>
             outroStartTime p =
               js_or (outroStartTime (player w))
                 (case playerSettings w (source d, vid d) of
                    Some x \<Rightarrow> set_outroStartTime x | None \<Rightarrow> None) \<and>
             currentEpisodeIndex p = lv_episodeIndex opts \<and>
             map url (ps_episodes p) = episodesSelectorBySource (source d) (detailStore w2))"
proof -
  let ?eps = "episodesSelectorBySource (source d) (detailStore w2)"
  let ?w3 = "setLoading True w2"
  let ?w4 = "fst (loadVideo_preload opts env d ?eps ?w3)"
  have ne: "?eps \<noteq> []"
    using assms(10,11) by auto
  have res: "loadVideo_resolve opts env w2 = (?w3, Some (d, ?eps))"
    using assms(9) by (intro loadVideo_resolve_cached [OF assms(5,8) _ ne]) simp
  have "fst (preloadAndTestSource (?eps ! nat (lv_episodeIndex opts)) (env_now1 env) (env_fetch1 env)
          (player ?w3))"
    using assms(12) preloadAndTestSource_verdict_cong [of "player ?w3" "player w2"]
    by (simp add: setLoading_def)
  then have pre: "snd (loadVideo_preload opts env d ?eps ?w3) = Some (d, ?eps)"
    by (rule loadVideo_preload_good [OF assms(10,11)])
  have run: "loadVideo opts env w2 = (loadVideo_restore opts env d ?eps ?w4, True)"
    using pre by (simp add: loadVideo_def res case_prod_beta)
  from savePlayRecord_stored(1) [OF assms(1-4)] obtain r where
    r: "playRecords (savePlayRecord noUpdates immediate now w) (source d, vid d) = Some r"
      "pr_play_time r = positionMillis s div 1000"
      "pr_introEndTime r = introEndTime (player w)"
      "pr_outroStartTime r = outroStartTime (player w)"
    by blast
  have settings: "playerSettings w2 = playerSettings w"
    using assms(7) savePlayRecord_stored(2) [OF assms(1-4)] by simp
  have rec4: "playRecords ?w4 (source d, vid d) = Some r"
    using r(1) assms(6) storage_preload [of opts env d ?eps ?w3] by simp
  have set4: "playerSettings ?w4 = playerSettings w"
    using settings storage_preload [of opts env d ?eps ?w3] by simp
  have more: "currentEpisodeIndex (player (loadVideo_restore opts env d ?eps ?w4)) = lv_episodeIndex opts"
    "map url (ps_episodes (player (loadVideo_restore opts env d ?eps ?w4))) = ?eps"
    using assms(13) by (simp_all add: loadVideo_restore_def Let_def)
  show ?thesis
    unfolding Let_def run fst_conv snd_conv
    using loadVideo_restore_player [OF assms(13,14) rec4, of ?eps] r(2-4) set4 more
    by simp
qed

lemma ex_playing_saved:
  "detail (detailStore ex_world_playing) = Some ex_current"
  "status (player ex_world_playing) = Some (playing_status 12345)"
  "isLoaded (playing_status 12345)"
  "introEndTime (player ex_world_playing) = Some 61500"
  "outroStartTime (player ex_world_playing) = None"
  "playerSettings ex_world_playing = Map.empty"
  "positionMillis (playing_status 12345) = 12345"
  by (simp_all add: ex_world_playing_def world_of_def store_of_def ex_player_def playing_status_def
      fresh_player_def)

lemma ex_playing_save:
  "savePlayRecord noUpdates True 5000 ex_world_playing =
     ex_world_playing\<lparr>playRecords := [(''cur'', 1) \<mapsto>
        \<lparr>pr_title = ''t'', pr_cover = [], pr_index = 1, pr_total_episodes = 1, pr_play_time = 12,
         pr_total_time = 2400, pr_source_name = ''cur'', pr_year = [], pr_introEndTime = Some 61500,
         pr_outroStartTime = None\<rparr>]\<rparr>"
  by (simp add: savePlayRecord_def Let_def PlayRecordManager_save_def noUpdates_def
      ex_world_playing_def world_of_def store_of_def ex_player_def playing_status_def
      fresh_player_def ex_current_def candidate_def)

lemma ex_playing_inputs:
  "source ex_current \<noteq> []" "lv_title ex_options = title ex_current"
  "episodesSelectorBySource (source ex_current)
     (detailStore (savePlayRecord noUpdates True 5000 ex_world_playing)) = [''http://cur/1.m3u8'']"
  "lv_episodeIndex ex_options = 0"
  "detail (detailStore (savePlayRecord noUpdates True 5000 ex_world_playing)) = Some ex_current"
  "fst (preloadAndTestSource ''http://cur/1.m3u8'' 1000000
          (Resolved \<lparr>fr_status = 200, fr_responseTime = 120\<rparr>)
          (player (savePlayRecord noUpdates True 5000 ex_world_playing)))"
  by (simp_all add: ex_playing_save)
    (simp_all add: ex_world_playing_def world_of_def store_of_def episodesSelectorBySource_def
      ex_options_def ex_current_def candidate_def ex_player_def fresh_player_def
      preloadAndTestSource_def fetchAndTest_def response_ok_def endsWith_def Let_def)

theorem savePlayRecord_loadVideo_roundtrip_witness:
  "positionMillis (playing_status 12345) = 12345 \<and>
   introEndTime (player ex_world_playing) = Some 61500 \<and>
   fst (preloadAndTestSource ''http://cur/1.m3u8'' 1000000
          (Resolved \<lparr>fr_status = 200, fr_responseTime = 120\<rparr>)
          (player (savePlayRecord noUpdates True 5000 ex_world_playing))) \<and>
   (let p = player (fst (loadVideo ex_options
                 (ex_env (Resolved \<lparr>fr_status = 200, fr_responseTime = 120\<rparr>))
                 (savePlayRecord noUpdates True 5000 ex_world_playing)))
    in initialPosition p = 12000 \<and> introEndTime p = Some 61500 \<and> outroStartTime p = None \<and>
       currentEpisodeIndex p = 0 \<and> map url (ps_episodes p) = [''http://cur/1.m3u8''])"
proof -
  let ?env = "ex_env (Resolved \<lparr>fr_status = 200, fr_responseTime = 120\<rparr>)"
  let ?w2 = "savePlayRecord noUpdates True 5000 ex_world_playing"
  have env: "env_storageOk ?env" "lv_position ex_options = None" "env_now1 ?env = 1000000"
    "env_fetch1 ?env = Resolved \<lparr>fr_status = 200, fr_responseTime = 120\<rparr>"
    by (simp_all add: ex_env_def ex_options_def)
  have "snd (loadVideo ex_options ?env ?w2) \<and>
         (let p = player (fst (loadVideo ex_options ?env ?w2))
          in initialPosition p = (positionMillis (playing_status 12345) div 1000) * 1000 \<and>
             introEndTime p =
               js_or (introEndTime (player ex_world_playing))
                 (case playerSettings ex_world_playing (source ex_current, vid ex_current) of
                    Some x \<Rightarrow> set_introEndTime x | None \<Rightarrow> None) \<and>
             outroStartTime p =
               js_or (outroStartTime (player ex_world_playing))
                 (case playerSettings ex_world_playing (source ex_current, vid ex_current) of
                    Some x \<Rightarrow> set_outroStartTime x | None \<Rightarrow> None) \<and>
             currentEpisodeIndex p = lv_episodeIndex ex_options \<and>
             map url (ps_episodes p) =
               episodesSelectorBySource (source ex_current) (detailStore ?w2))"
    by (rule savePlayRecord_loadVideo_roundtrip [OF ex_playing_saved(1-3) _ ex_playing_inputs(5)
          refl refl ex_playing_inputs(1,2)])
      (simp_all add: ex_playing_inputs env)
  then show ?thesis
    using ex_playing_inputs(6)
    by (simp add: Let_def ex_playing_saved ex_playing_inputs(3,4) js_or_def)
qed

lemma ex_two_playing_save:
  "savePlayRecord noUpdates True 5000 ex_world_two_playing =
     ex_world_two_playing\<lparr>playRecords := [(''cur'', 1) \<mapsto>
        \<lparr>pr_title = ''t'', pr_cover = [], pr_index = 1, pr_total_episodes = 1, pr_play_time = 12,
         pr_total_time = 2400, pr_source_name = ''cur'', pr_year = [], pr_introEndTime = None,
         pr_outroStartTime = None\<rparr>]\<rparr>"
  by (simp add: savePlayRecord_def Let_def PlayRecordManager_save_def noUpdates_def
      ex_world_two_playing_def world_of_def store_of_def ex_player_def playing_status_def
      fresh_player_def ex_current_def candidate_def)

lemma ex_two_playing_switch:
  "initialPosition (player (fst (loadVideo ex_options (ex_env Rejected)
      (savePlayRecord noUpdates True 5000 ex_world_two_playing)))) = 0"
  "detail (detailStore (fst (loadVideo ex_options (ex_env Rejected)
      (savePlayRecord noUpdates True 5000 ex_world_two_playing)))) = Some ex_a1080"
  "playRecords (fst (loadVideo ex_options (ex_env Rejected)
      (savePlayRecord noUpdates True 5000 ex_world_two_playing))) (''cur'', 1) =
     Some \<lparr>pr_title = ''t'', pr_cover = [], pr_index = 1, pr_total_episodes = 1, pr_play_time = 12,
         pr_total_time = 2400, pr_source_name = ''cur'', pr_year = [], pr_introEndTime = None,
         pr_outroStartTime = None\<rparr>"
  by (simp_all only: ex_two_playing_save)
    (simp_all add: loadVideo_def loadVideo_resolve_def loadVideo_preload_def loadVideo_restore_def
      Let_def js_index_def ex_options_def ex_env_def
      preloadAndTestSource_def fetchAndTest_def response_ok_def endsWith_def
      getNextAvailableSource_eq availableSources_def setDetail_def setTimeout_def world_of_def
      markSourceAsFailed_def store_of_def cacheResult_def fresh_player_def
      ex_world_two_playing_def setLoading_def episodesSelectorBySource_def ex_player_def
      ex_current_def ex_a1080_def candidate_def mapEpisodes_def playing_status_def
      PlayRecordManager_get_def PlayerSettingsManager_get_def js_or_def)

text \<open>
  The claim as stated fails in two ways. The position is stored in whole seconds: a record saved
  at 12345 ms is restored as 12000 ms. And \<open>loadVideo\<close> reads the record of the source it ends
  on: called for the saved source \<open>cur\<close> and id \<open>1\<close> while the probe of \<open>cur\<close> fails and the
  probe of \<open>hd\<close> succeeds, it switches to \<open>hd\<close>, finds no record for it and sets
  \<open>initialPosition\<close> to zero, although the record of \<open>cur\<close> is in the storage.
\<close>

theorem savePlayRecord_loadVideo_counterexample:
  "positionMillis (playing_status 12345) = 12345 \<and>
   status (player ex_world_playing) = Some (playing_status 12345) \<and>
   initialPosition (player (fst (loadVideo ex_options
       (ex_env (Resolved \<lparr>fr_status = 200, fr_responseTime = 120\<rparr>))
       (savePlayRecord noUpdates True 5000 ex_world_playing)))) = 12000 \<and>
   status (player ex_world_two_playing) = Some (playing_status 12345) \<and>
   lv_source ex_options = ''cur'' \<and> lv_id ex_options = ''1'' \<and>
   source ex_current = ''cur'' \<and> vid ex_current = 1 \<and>
   detail (detailStore ex_world_two_playing) = Some ex_current \<and>
   map_option pr_play_time (playRecords (fst (loadVideo ex_options (ex_env Rejected)
       (savePlayRecord noUpdates True 5000 ex_world_two_playing))) (''cur'', 1)) = Some 12 \<and>
   detail (detailStore (fst (loadVideo ex_options (ex_env Rejected)
       (savePlayRecord noUpdates True 5000 ex_world_two_playing)))) = Some ex_a1080 \<and>
   initialPosition (player (fst (loadVideo ex_options (ex_env Rejected)
       (savePlayRecord noUpdates True 5000 ex_world_two_playing)))) = 0"
proof -
  let ?env = "ex_env (Resolved \<lparr>fr_status = 200, fr_responseTime = 120\<rparr>)"
  let ?w2 = "savePlayRecord noUpdates True 5000 ex_world_playing"
  let ?w4 = "fst (loadVideo_preload ex_options ?env ex_current [''http://cur/1.m3u8'']
      (setLoading True ?w2))"
  have "fst (preloadAndTestSource ''http://cur/1.m3u8'' 1000000
          (Resolved \<lparr>fr_status = 200, fr_responseTime = 120\<rparr>) (player (setLoading True ?w2)))"
    using ex_playing_inputs(6)
      preloadAndTestSource_verdict_cong [of "player (setLoading True ?w2)" "player ?w2"]
    by (simp add: setLoading_def)
  then have pre: "snd (loadVideo_preload ex_options ?env ex_current [''http://cur/1.m3u8'']
      (setLoading True ?w2)) = Some (ex_current, [''http://cur/1.m3u8''])"
    by (intro loadVideo_preload_good) (simp_all add: ex_options_def ex_env_def)
  have res: "loadVideo_resolve ex_options ?env ?w2 =
      (setLoading True ?w2, Some (ex_current, [''http://cur/1.m3u8'']))"
    using loadVideo_resolve_cached [OF ex_playing_inputs(5,1), of ex_options ?env]
    by (simp add: ex_playing_inputs)
  have run: "fst (loadVideo ex_options ?env ?w2) =
      loadVideo_restore ex_options ?env ex_current [''http://cur/1.m3u8''] ?w4"
    using pre by (simp add: loadVideo_def res case_prod_beta)
  have "playRecords ?w4 = playRecords ?w2"
    using storage_preload [of ex_options ?env ex_current "[''http://cur/1.m3u8'']" "setLoading True ?w2"]
    by simp
  then have rec: "playRecords ?w4 (source ex_current, vid ex_current) =
      Some \<lparr>pr_title = ''t'', pr_cover = [], pr_index = 1, pr_total_episodes = 1, pr_play_time = 12,
         pr_total_time = 2400, pr_source_name = ''cur'', pr_year = [], pr_introEndTime = Some 61500,
         pr_outroStartTime = None\<rparr>"
    by (simp add: ex_playing_save ex_current_def candidate_def)
  have ok: "env_storageOk ?env" "lv_position ex_options = None"
    by (simp_all add: ex_env_def ex_options_def)
  have first: "initialPosition (player (fst (loadVideo ex_options ?env ?w2))) = 12000"
    unfolding run using loadVideo_restore_player(1) [OF ok rec] by simp
  have two: "status (player ex_world_two_playing) = Some (playing_status 12345)"
    "lv_source ex_options = ''cur''" "lv_id ex_options = ''1''"
    "source ex_current = ''cur''" "vid ex_current = 1"
    "detail (detailStore ex_world_two_playing) = Some ex_current"
    by (simp_all add: ex_world_two_playing_def world_of_def store_of_def ex_options_def
        ex_current_def candidate_def)
  show ?thesis
    using first two ex_playing_saved ex_two_playing_switch by simp
qed

subsection \<open>Status ticks while the stream is stalled\<close>

lemma savePlayRecord_frame:
  "bufView (savePlayRecord u i now w) = bufView w"
  "status (player (savePlayRecord u i now w)) = status (player w)"
  "bufTimers (savePlayRecord u i now w) = bufTimers w"
  by (simp_all add: savePlayRecord_def Let_def setTimeout_def PlayRecordManager_save_def
      bufTimers_def bufView_def videoErrorCalls_def split: option.split)

lemma playEpisode_frame:
  "bufView (playEpisode index ok w) = bufView w"
  "status (player (playEpisode index ok w)) = status (player w)"
  "bufTimers (playEpisode index ok w) = bufTimers w"
  by (simp_all add: playEpisode_def Let_def emit_def bufTimers_def bufView_def videoErrorCalls_def)

lemma set_status_frame:
  "bufView (w\<lparr>player := (player w)\<lparr>status := x\<rparr>\<rparr>) = bufView w"
  "bufTimers (w\<lparr>player := (player w)\<lparr>status := x\<rparr>\<rparr>) = bufTimers w"
  by (simp_all add: bufTimers_def bufView_def videoErrorCalls_def)

lemma handleLoaded_frame:
  "bufView (handleLoaded s now env p0 d0 w) = bufView w"
  "bufTimers (handleLoaded s now env p0 d0 w) = bufTimers w"
  by (simp_all add: handleLoaded_def Let_def savePlayRecord_frame playEpisode_frame set_status_frame)

lemma handleLoaded_status:
  "outroStartTime p0 = None \<Longrightarrow> status (player (handleLoaded s now env p0 d0 w)) = Some s"
  by (simp add: handleLoaded_def Let_def)

lemma detectBuffering_started:
  assumes "stalled s" and "\<not> isUserPaused (player w)" and "lastSeekTime (player w) = None"
    and "truthy (bufferingStartTime (player w))"
  shows "detectBuffering s now (player w) d0 w = w"
  using assms by (simp add: detectBuffering_def stalled_def isRecentlySeeked_def Let_def)

lemma detectBuffering_arms:
  assumes "stalled s" and "\<not> isUserPaused (player w)" and "lastSeekTime (player w) = None"
    and "bufferingStartTime (player w) = None"
  shows "bufView (detectBuffering s now (player w) d0 w) =
           (Some now, 0, False, None, outroStartTime (player w), detail (detailStore w),
            videoErrorCalls w)"
    and "bufTimers (detectBuffering s now (player w) d0 w) =
           bufTimers w @ [\<lparr>tm_id = nextTimerId w, tm_due = now + 20000,
                           tm_task = BufferingTimeout now d0 (currentEpisodeIndex (player w))\<rparr>]"
  using assms
  by (simp_all add: detectBuffering_def stalled_def isRecentlySeeked_def Let_def truthy_def
      setTimeout_def bufView_def bufTimers_def videoErrorCalls_def)

lemma preloadAndTestSource_frame:
  "preloadAndTestSource u now fetched p = (v, p', urls) \<Longrightarrow>
     bufferingStartTime p' = bufferingStartTime p \<and> bufferingRetryCount p' = bufferingRetryCount p \<and>
     isUserPaused p' = isUserPaused p \<and> lastSeekTime p' = lastSeekTime p \<and>
     outroStartTime p' = outroStartTime p \<and> status p' = status p"
  by (auto simp: preloadAndTestSource_def fetchAndTest_def Let_def cacheResult_def
      split: option.splits if_splits promise.splits)

lemma videoErrorCalls_fetch:
  "videoErrorCalls (w\<lparr>player := p, effects := effects w @ map Fetch urls\<rparr>) = videoErrorCalls w"
  by (induction urls rule: rev_induct) (simp_all add: videoErrorCalls_def)

lemma timers_handleVideoError: "timers (handleVideoError et u f w) = timers w"
  by (simp add: handleVideoError_def Let_def setLoading_def emit_def
      split: option.split prod.split)

lemma timers_fireTimer: "timers (fireTimer env t w) = timers w"
  by (simp add: fireTimer_def bufferingTimeoutFired_def Let_def timers_handleVideoError emit_def
      split: timerTask.split option.split prod.split)

lemma fireTimer_other:
  assumes "\<not> isBufferingTask (tm_task t)"
  shows "bufView (fireTimer env t w) = bufView w"
    and "status (player (fireTimer env t w)) = status (player w)"
proof -
  show "bufView (fireTimer env t w) = bufView w"
  proof (cases "tm_task t")
    case (BufferingTimeout a b c)
    with assms show ?thesis by simp
  next
    case ThrottleRelease
    then show ?thesis
      by (simp add: fireTimer_def bufView_def videoErrorCalls_def)
  next
    case (PreloadNextEpisode u i)
    obtain v p' urls where r: "preloadAndTestSource u (tm_due t) (te_fetch env) (player w) = (v, p', urls)"
      by (cases "preloadAndTestSource u (tm_due t) (te_fetch env) (player w)") auto
    from preloadAndTestSource_frame [OF r] show ?thesis
      using PreloadNextEpisode r
      by (simp add: fireTimer_def bufView_def videoErrorCalls_fetch)
  qed
  show "status (player (fireTimer env t w)) = status (player w)"
  proof (cases "tm_task t")
    case (BufferingTimeout a b c)
    with assms show ?thesis by simp
  next
    case ThrottleRelease
    then show ?thesis
      by (simp add: fireTimer_def)
  next
    case (PreloadNextEpisode u i)
    obtain v p' urls where r: "preloadAndTestSource u (tm_due t) (te_fetch env) (player w) = (v, p', urls)"
      by (cases "preloadAndTestSource u (tm_due t) (te_fetch env) (player w)") auto
    from preloadAndTestSource_frame [OF r] show ?thesis
      using PreloadNextEpisode r
      by (simp add: fireTimer_def)
  qed
qed

lemma bufferingTimeoutFired_first:
  assumes "status (player w) = Some s" and "stalled s"
    and "bufView w = (st, 0, False, None, outro, d, n)" and "d0 \<noteq> None"
  shows "bufView (bufferingTimeoutFired now d0 idx env w) = (st, 1, False, None, outro, d, n)"
    and "status (player (bufferingTimeoutFired now d0 idx env w)) = Some s"
  using assms
  by (auto simp: bufferingTimeoutFired_def Let_def stalled_def isRecentlySeeked_def bufView_def
      videoErrorCalls_def emit_def split: option.splits)

lemma bufferingTimeoutFired_paused:
  assumes "isUserPaused (player w)"
  shows "bufferingTimeoutFired now d0 idx env w = w"
  using assms by (simp add: bufferingTimeoutFired_def Let_def split: option.split)

lemma fireTimer_paused:
  assumes "isUserPaused (player w)"
  shows "bufView (fireTimer env t w) = bufView w"
proof (cases "isBufferingTask (tm_task t)")
  case True
  then obtain a b c where "tm_task t = BufferingTimeout a b c"
    by (cases "tm_task t") simp_all
  then show ?thesis
    using assms by (simp add: fireTimer_def bufferingTimeoutFired_paused)
next
  case False
  then show ?thesis by (rule fireTimer_other)
qed

lemma paused_bufView: "bufView w' = bufView w \<Longrightarrow> isUserPaused (player w') = isUserPaused (player w)"
  by (simp add: bufView_def)

lemma calls_bufView: "bufView w' = bufView w \<Longrightarrow> videoErrorCalls w' = videoErrorCalls w"
  by (simp add: bufView_def)

lemma fold_fire_paused:
  "isUserPaused (player w) \<Longrightarrow> bufView (fold (fireTimer env) ts w) = bufView w"
proof (induction ts arbitrary: w)
  case Nil
  then show ?case by simp
next
  case (Cons t ts)
  have v: "bufView (fireTimer env t w) = bufView w"
    by (rule fireTimer_paused [OF Cons.prems])
  then have "isUserPaused (player (fireTimer env t w))"
    using Cons.prems paused_bufView [of "fireTimer env t w" w] by simp
  from Cons.IH [OF this] v show ?case by simp
qed

lemma fold_fire_other:
  "\<forall>t\<in>set ts. \<not> isBufferingTask (tm_task t) \<Longrightarrow>
     bufView (fold (fireTimer env) ts w) = bufView w \<and>
     status (player (fold (fireTimer env) ts w)) = status (player w)"
proof (induction ts arbitrary: w)
  case Nil
  then show ?case by simp
next
  case (Cons t ts)
  then have t: "\<not> isBufferingTask (tm_task t)" and ts: "\<forall>t\<in>set ts. \<not> isBufferingTask (tm_task t)"
    by simp_all
  from Cons.IH [OF ts, of "fireTimer env t w"] fireTimer_other [OF t, of env w]
  show ?case by simp
qed

lemma fold_fire_one:
  assumes "filter (\<lambda>t. isBufferingTask (tm_task t)) ts = [x]"
    and "tm_task x = BufferingTimeout now0 d0 idx" and "d0 \<noteq> None"
    and "status (player w) = Some s" and "stalled s"
    and "bufView w = (st, 0, False, None, outro, d, n)"
  shows "bufView (fold (fireTimer env) ts w) = (st, 1, False, None, outro, d, n)"
proof -
  from filter_eq_ConsD [OF assms(1)] obtain us vs where
    ts: "ts = us @ x # vs" and us: "\<forall>u\<in>set us. \<not> isBufferingTask (tm_task u)"
    and vs: "[] = filter (\<lambda>t. isBufferingTask (tm_task t)) vs"
    by blast
  from vs [symmetric] have vs': "\<forall>u\<in>set vs. \<not> isBufferingTask (tm_task u)"
    by (simp only: filter_empty_conv)
  let ?w1 = "fold (fireTimer env) us w"
  have w1: "bufView ?w1 = (st, 0, False, None, outro, d, n)" "status (player ?w1) = Some s"
    using fold_fire_other [OF us, of env w] assms(4,6) by simp_all
  have x: "fireTimer env x ?w1 = bufferingTimeoutFired now0 d0 idx env ?w1"
    using assms(2) by (simp add: fireTimer_def)
  have w2: "bufView (fireTimer env x ?w1) = (st, 1, False, None, outro, d, n)"
    unfolding x by (rule bufferingTimeoutFired_first(1) [OF w1(2) assms(5) w1(1) assms(3)])
  show ?thesis
    using fold_fire_other [OF vs', of env "fireTimer env x ?w1"] w2 by (simp add: ts)
qed

lemma fold_fire_timers: "timers (fold (fireTimer env) ts w) = timers w"
  by (induction ts arbitrary: w) (simp_all add: timers_fireTimer)

lemma bufTimers_fireDue:
  "bufTimers (fireDue now env w) = filter (\<lambda>t. \<not> tm_due t \<le> now) (bufTimers w)"
  by (simp add: fireDue_def bufTimers_def fold_fire_timers conj_commute)

lemma due_buffering:
  "filter (\<lambda>t. isBufferingTask (tm_task t))
     (sort_key tm_due (filter (\<lambda>t. tm_due t \<le> now) (timers w))) =
   sort_key tm_due (filter (\<lambda>t. tm_due t \<le> now) (bufTimers w))"
  by (simp add: filter_sort bufTimers_def conj_commute)

lemma drop_due_frame:
  "bufView (w\<lparr>timers := ts\<rparr>) = bufView w"
  "status (player (w\<lparr>timers := ts\<rparr>)) = status (player w)"
  by (simp_all add: bufView_def videoErrorCalls_def)

lemma fireDue_none_due:
  assumes "filter (\<lambda>t. tm_due t \<le> now) (bufTimers w) = []"
  shows "bufView (fireDue now env w) = bufView w"
    and "status (player (fireDue now env w)) = status (player w)"
proof -
  have "filter (\<lambda>t. isBufferingTask (tm_task t))
     (sort_key tm_due (filter (\<lambda>t. tm_due t \<le> now) (timers w))) = []"
    using assms by (simp only: due_buffering) simp
  then have "\<forall>t\<in>set (sort_key tm_due (filter (\<lambda>t. tm_due t \<le> now) (timers w))).
      \<not> isBufferingTask (tm_task t)"
    by (simp only: filter_empty_conv)
  from fold_fire_other [OF this]
  show "bufView (fireDue now env w) = bufView w"
    and "status (player (fireDue now env w)) = status (player w)"
    by (simp_all add: fireDue_def drop_due_frame)
qed

lemma fireDue_one_due:
  assumes "bufTimers w = [x]" and "tm_due x \<le> now"
    and "tm_task x = BufferingTimeout now0 d0 idx" and "d0 \<noteq> None"
    and "status (player w) = Some s" and "stalled s"
    and "bufView w = (st, 0, False, None, outro, d, n)"
  shows "bufView (fireDue now env w) = (st, 1, False, None, outro, d, n)"
proof -
  have "filter (\<lambda>t. isBufferingTask (tm_task t))
     (sort_key tm_due (filter (\<lambda>t. tm_due t \<le> now) (timers w))) = [x]"
    using assms(1,2) by (simp only: due_buffering) simp
  from fold_fire_one [OF this assms(3,4), of "w\<lparr>timers := filter (\<lambda>t. \<not> tm_due t \<le> now) (timers w)\<rparr>"
      s st outro d n env] assms(5,6,7)
  show ?thesis
    by (simp add: fireDue_def drop_due_frame)
qed

lemma fireDue_paused:
  "isUserPaused (player w) \<Longrightarrow> bufView (fireDue now env w) = bufView w"
  using fold_fire_paused [of "w\<lparr>timers := filter (\<lambda>t. \<not> tm_due t \<le> now) (timers w)\<rparr>" env]
  by (simp add: fireDue_def drop_due_frame)

lemma tick_started:
  assumes "stalled s" and "bufView w = (Some t0, r, False, None, None, d, n)" and "t0 \<noteq> 0"
  shows "bufView (handlePlaybackStatusUpdate s now env w) = bufView w"
    and "bufTimers (handlePlaybackStatusUpdate s now env w) = bufTimers w"
    and "status (player (handlePlaybackStatusUpdate s now env w)) = Some s"
proof -
  from assms(2,3) have p: "\<not> isUserPaused (player w)" "lastSeekTime (player w) = None"
    "truthy (bufferingStartTime (player w))" "outroStartTime (player w) = None"
    by (simp_all add: bufView_def truthy_def)
  have loaded: "isLoaded s"
    using assms(1) by (simp add: stalled_def)
  have h: "handlePlaybackStatusUpdate s now env w =
      handleLoaded s now env (player w) (detail (detailStore w)) w"
    using loaded detectBuffering_started [OF assms(1) p(1-3)]
    by (simp add: handlePlaybackStatusUpdate_def Let_def)
  show "bufView (handlePlaybackStatusUpdate s now env w) = bufView w"
    "bufTimers (handlePlaybackStatusUpdate s now env w) = bufTimers w"
    "status (player (handlePlaybackStatusUpdate s now env w)) = Some s"
    unfolding h by (simp_all add: handleLoaded_frame handleLoaded_status [OF p(4)])
qed

lemma tick_first:
  assumes "stalled s" and "bufView w = (None, r, False, None, None, d, n)"
  shows "bufView (handlePlaybackStatusUpdate s now env w) = (Some now, 0, False, None, None, d, n)"
    and "bufTimers (handlePlaybackStatusUpdate s now env w) =
           bufTimers w @ [\<lparr>tm_id = nextTimerId w, tm_due = now + 20000,
                           tm_task = BufferingTimeout now d (currentEpisodeIndex (player w))\<rparr>]"
    and "status (player (handlePlaybackStatusUpdate s now env w)) = Some s"
proof -
  from assms(2) have p: "\<not> isUserPaused (player w)" "lastSeekTime (player w) = None"
    "bufferingStartTime (player w) = None" "outroStartTime (player w) = None"
    "detail (detailStore w) = d" "videoErrorCalls w = n"
    by (simp_all add: bufView_def)
  have loaded: "isLoaded s"
    using assms(1) by (simp add: stalled_def)
  have h: "handlePlaybackStatusUpdate s now env w =
      handleLoaded s now env (player w) d (detectBuffering s now (player w) d w)"
    using loaded p(5) by (simp add: handlePlaybackStatusUpdate_def Let_def)
  show "bufView (handlePlaybackStatusUpdate s now env w) = (Some now, 0, False, None, None, d, n)"
    "bufTimers (handlePlaybackStatusUpdate s now env w) =
           bufTimers w @ [\<lparr>tm_id = nextTimerId w, tm_due = now + 20000,
                           tm_task = BufferingTimeout now d (currentEpisodeIndex (player w))\<rparr>]"
    "status (player (handlePlaybackStatusUpdate s now env w)) = Some s"
    unfolding h
    using detectBuffering_arms [OF assms(1) p(1-3), of now d] p(4-6)
    by (simp_all add: handleLoaded_frame handleLoaded_status [OF p(4)])
qed

lemma tick_paused:
  assumes "isLoaded s" and "\<not> isPlaying s" and "isUserPaused (player w)"
  shows "isUserPaused (player (handlePlaybackStatusUpdate s now env w))"
    and "videoErrorCalls (handlePlaybackStatusUpdate s now env w) = videoErrorCalls w"
proof -
  let ?w1 = "detectBuffering s now (player w) (detail (detailStore w)) w"
  have d: "isUserPaused (player ?w1)" "videoErrorCalls ?w1 = videoErrorCalls w"
    using assms
    by (simp_all add: detectBuffering_def Let_def clearTimeout_def videoErrorCalls_def
        split: option.split)
  have h: "handlePlaybackStatusUpdate s now env w =
      handleLoaded s now env (player w) (detail (detailStore w)) ?w1"
    using assms(1) by (simp add: handlePlaybackStatusUpdate_def Let_def)
  have v: "bufView (handlePlaybackStatusUpdate s now env w) = bufView ?w1"
    unfolding h by (rule handleLoaded_frame(1))
  show "isUserPaused (player (handlePlaybackStatusUpdate s now env w))"
    using paused_bufView [OF v] d(1) by simp
  show "videoErrorCalls (handlePlaybackStatusUpdate s now env w) = videoErrorCalls w"
    using calls_bufView [OF v] d(2) by simp
qed

lemma run_paused:
  assumes "isUserPaused (player w)"
    and "\<forall>tk\<in>set ticks. stalled (tk_status tk)"
  shows "videoErrorCalls (run ticks w) = videoErrorCalls w"
  using assms
proof (induction ticks arbitrary: w)
  case Nil
  then show ?case by simp
next
  case (Cons tk ticks)
  let ?w1 = "fireDue (tk_time tk) (tk_env tk) w"
  let ?w2 = "handlePlaybackStatusUpdate (tk_status tk) (tk_time tk) (tk_env tk) ?w1"
  have v1: "bufView ?w1 = bufView w"
    by (rule fireDue_paused [OF Cons.prems(1)])
  then have p1: "isUserPaused (player ?w1)"
    using Cons.prems(1) paused_bufView [OF v1] by simp
  have st: "isLoaded (tk_status tk)" "\<not> isPlaying (tk_status tk)"
    using Cons.prems(2) by (simp_all add: stalled_def)
  have p2: "isUserPaused (player ?w2)"
    and c2: "videoErrorCalls ?w2 = videoErrorCalls ?w1"
    by (rule tick_paused [OF st p1])+
  have "videoErrorCalls (run ticks ?w2) = videoErrorCalls ?w2"
    using Cons.prems(2) by (intro Cons.IH [OF p2]) simp
  then show ?case
    using c2 calls_bufView [OF v1] by simp
qed

lemma run_fired:
  assumes "bufView w = (Some t0, 1, False, None, None, d, n)" and "t0 \<noteq> 0"
    and "bufTimers w = []"
    and "\<forall>tk\<in>set ticks. stalled (tk_status tk)"
  shows "bufView (run ticks w) = (Some t0, 1, False, None, None, d, n)"
  using assms
proof (induction ticks arbitrary: w)
  case Nil
  then show ?case by simp
next
  case (Cons tk ticks)
  let ?w1 = "fireDue (tk_time tk) (tk_env tk) w"
  let ?w2 = "handlePlaybackStatusUpdate (tk_status tk) (tk_time tk) (tk_env tk) ?w1"
  have none: "filter (\<lambda>t. tm_due t \<le> tk_time tk) (bufTimers w) = []"
    using Cons.prems(3) by simp
  have v1: "bufView ?w1 = (Some t0, 1, False, None, None, d, n)"
    using fireDue_none_due(1) [OF none] Cons.prems(1) by simp
  have b1: "bufTimers ?w1 = []"
    using Cons.prems(3) by (simp add: bufTimers_fireDue)
  have st: "stalled (tk_status tk)"
    using Cons.prems(4) by simp
  have v2: "bufView ?w2 = (Some t0, 1, False, None, None, d, n)"
    and b2: "bufTimers ?w2 = []"
    using tick_started(1,2) [OF st v1 Cons.prems(2)] v1 b1 by simp_all
  have "bufView (run ticks ?w2) = (Some t0, 1, False, None, None, d, n)"
    using Cons.prems(4) by (intro Cons.IH [OF v2 Cons.prems(2) b2]) simp
  then show ?case by simp
qed

lemma run_armed:
  assumes "bufView w = (Some t0, 0, False, None, None, d, n)" and "t0 \<noteq> 0"
    and "bufTimers w = [x]" and "tm_due x = t0 + 20000"
    and "tm_task x = BufferingTimeout t0 d0 idx" and "d0 \<noteq> None"
    and "status (player w) = Some s" and "stalled s"
    and "\<forall>tk\<in>set ticks. stalled (tk_status tk)"
  shows "bufView (run ticks w) =
     (Some t0, (if \<exists>tk\<in>set ticks. t0 + 20000 \<le> tk_time tk then 1 else 0),
      False, None, None, d, n)"
  using assms
proof (induction ticks arbitrary: w s)
  case Nil
  then show ?case by simp
next
  case (Cons tk ticks)
  let ?w1 = "fireDue (tk_time tk) (tk_env tk) w"
  let ?w2 = "handlePlaybackStatusUpdate (tk_status tk) (tk_time tk) (tk_env tk) ?w1"
  have st: "stalled (tk_status tk)" and rest: "\<forall>tk\<in>set ticks. stalled (tk_status tk)"
    using Cons.prems(9) by simp_all
  show ?case
  proof (cases "t0 + 20000 \<le> tk_time tk")
    case True
    then have due: "tm_due x \<le> tk_time tk"
      using Cons.prems(4) by simp
    have v1: "bufView ?w1 = (Some t0, 1, False, None, None, d, n)"
      by (rule fireDue_one_due [OF Cons.prems(3) due Cons.prems(5,6,7,8,1)])
    have b1: "bufTimers ?w1 = []"
      using Cons.prems(3) due by (simp add: bufTimers_fireDue)
    have v2: "bufView ?w2 = (Some t0, 1, False, None, None, d, n)"
      and b2: "bufTimers ?w2 = []"
      using tick_started(1,2) [OF st v1 Cons.prems(2)] v1 b1 by simp_all
    have "bufView (run ticks ?w2) = (Some t0, 1, False, None, None, d, n)"
      by (rule run_fired [OF v2 Cons.prems(2) b2 rest])
    then show ?thesis
      using True by simp
  next
    case False
    then have notdue: "\<not> tm_due x \<le> tk_time tk"
      using Cons.prems(4) by simp
    have none: "filter (\<lambda>t. tm_due t \<le> tk_time tk) (bufTimers w) = []"
      using Cons.prems(3) notdue by simp
    have v1: "bufView ?w1 = (Some t0, 0, False, None, None, d, n)"
      using fireDue_none_due(1) [OF none] Cons.prems(1) by simp
    have b1: "bufTimers ?w1 = [x]"
      using Cons.prems(3) notdue by (simp add: bufTimers_fireDue)
    have v2: "bufView ?w2 = (Some t0, 0, False, None, None, d, n)"
      and b2: "bufTimers ?w2 = [x]"
      and s2: "status (player ?w2) = Some (tk_status tk)"
      using tick_started [OF st v1 Cons.prems(2)] v1 b1 by simp_all
    have "bufView (run ticks ?w2) =
        (Some t0, (if \<exists>tk\<in>set ticks. t0 + 20000 \<le> tk_time tk then 1 else 0),
         False, None, None, d, n)"
      by (rule Cons.IH [OF v2 Cons.prems(2) b2 Cons.prems(4,5,6) s2 st rest])
    then show ?thesis
      using False by simp
  qed
qed

lemma run_stalled_fresh:
  assumes "bufferingStartTime (player w) = None" and "bufTimers w = []"
    and "\<not> isUserPaused (player w)" and "lastSeekTime (player w) = None"
    and "outroStartTime (player w) = None" and "detail (detailStore w) \<noteq> None"
    and "ticks \<noteq> []" and "\<forall>tk\<in>set ticks. stalled (tk_status tk)"
    and "0 < tk_time (hd ticks)"
    and "20000 < tk_time (last ticks) - tk_time (hd ticks)"
  shows "videoErrorCalls (run ticks w) = videoErrorCalls w \<and>
         bufferingRetryCount (player (run ticks w)) = 1"
proof -
  from assms(7) obtain tk rest where ticks: "ticks = tk # rest"
    by (cases ticks) auto
  let ?t0 = "tk_time tk"
  let ?w1 = "fireDue ?t0 (tk_env tk) w"
  let ?w2 = "handlePlaybackStatusUpdate (tk_status tk) ?t0 (tk_env tk) ?w1"
  let ?d = "detail (detailStore w)"
  let ?n = "videoErrorCalls w"
  have v0: "bufView w = (None, bufferingRetryCount (player w), False, None, None, ?d, ?n)"
    using assms(1,3,4,5) by (simp add: bufView_def)
  have none: "filter (\<lambda>t. tm_due t \<le> ?t0) (bufTimers w) = []"
    using assms(2) by simp
  have v1: "bufView ?w1 = (None, bufferingRetryCount (player w), False, None, None, ?d, ?n)"
    using fireDue_none_due(1) [OF none] v0 by simp
  have b1: "bufTimers ?w1 = []"
    using assms(2) by (simp add: bufTimers_fireDue)
  have st: "stalled (tk_status tk)" and rest: "\<forall>tk\<in>set rest. stalled (tk_status tk)"
    using assms(8) ticks by simp_all
  have t0: "?t0 \<noteq> 0"
    using assms(9) ticks by simp
  let ?x = "\<lparr>tm_id = nextTimerId ?w1, tm_due = ?t0 + 20000,
             tm_task = BufferingTimeout ?t0 ?d (currentEpisodeIndex (player ?w1))\<rparr>"
  have v2: "bufView ?w2 = (Some ?t0, 0, False, None, None, ?d, ?n)"
    and b2: "bufTimers ?w2 = [?x]"
    and s2: "status (player ?w2) = Some (tk_status tk)"
    using tick_first [OF st v1] b1 by simp_all
  have later: "\<exists>tk'\<in>set rest. ?t0 + 20000 \<le> tk_time tk'"
  proof (cases "rest = []")
    case True
    with assms(10) ticks show ?thesis by simp
  next
    case False
    then have "last ticks \<in> set rest"
      using ticks by simp
    moreover have "?t0 + 20000 \<le> tk_time (last ticks)"
      using assms(10) ticks by simp
    ultimately show ?thesis by blast
  qed
  have "bufView (run rest ?w2) =
     (Some ?t0, (if \<exists>tk'\<in>set rest. ?t0 + 20000 \<le> tk_time tk' then 1 else 0),
      False, None, None, ?d, ?n)"
    by (rule run_armed [OF v2 t0 b2 _ _ assms(6) s2 st rest]) simp_all
  then have "bufView (run ticks w) = (Some ?t0, 1, False, None, None, ?d, ?n)"
    using later ticks by simp
  then show ?thesis
    by (simp add: bufView_def)
qed

text \<open>
  What the lemmas above give for every stall, whatever its length: from a state without a
  recorded buffering start and without a pending buffering timer, with no pause, no recorded
  seek, no outro marker and an active detail, a sequence of stalled ticks at clock times above
  zero that lasts more than 20 seconds ends with retry count 1 and without any invocation of
  \<open>handleVideoError\<close> (\<open>run_stalled_fresh\<close>); and while the user has paused, stalled ticks
  never lead to an invocation (\<open>run_paused\<close>).
\<close>

lemma ex_world_facts:
  "bufferingStartTime (player ex_world) = None" "timers ex_world = []"
  "\<not> isUserPaused (player ex_world)" "lastSeekTime (player ex_world) = None"
  "outroStartTime (player ex_world) = None" "detail (detailStore ex_world) = Some ex_current"
  "effects ex_world = []" "failedSources (detailStore ex_world) = {}"
  "map url (ps_episodes (player ex_world)) = [''http://cur/1.m3u8'']"
  "currentEpisodeIndex (player ex_world) = 0"
  by (simp_all add: ex_world_def world_of_def ex_player_def fresh_player_def
      ex_store_def store_of_def mapEpisodes_def ex_current_def candidate_def)

lemma ex_long_ticks_facts:
  "list_all (\<lambda>tk. stalled (tk_status tk)) ex_long_ticks"
  "map tk_time ex_long_ticks =
     [1000000, 1010000, 1020000, 1030000, 1040000, 1050000, 1060000, 1070000]"
  "map (positionMillis \<circ> tk_status) ex_long_ticks =
     [90000, 90000, 90000, 90000, 90000, 90000, 90000, 90000]"
  by (simp_all add: ex_long_ticks_def ex_tick_def stalled_def stalled_status_def)

lemma ex_long_run:
  "effects (run ex_long_ticks ex_world) = [SetPositionAsync 85000]"
  "bufferingRetryCount (player (run ex_long_ticks ex_world)) = 1"
  "bufferingStartTime (player (run ex_long_ticks ex_world)) = Some 1000000"
  "bufTimers (run ex_long_ticks ex_world) = []"
  "detail (detailStore (run ex_long_ticks ex_world)) = Some ex_current"
  "failedSources (detailStore (run ex_long_ticks ex_world)) = {}"
  by (simp_all add: ex_long_ticks_def ex_tick_def stalled_status_def ex_world_def world_of_def
      ex_player_def fresh_player_def ex_store_def store_of_def
      handlePlaybackStatusUpdate_def detectBuffering_def handleLoaded_def fireDue_def fireTimer_def
      bufferingTimeoutFired_def savePlayRecord_def playEpisode_def setTimeout_def clearTimeout_def
      PlayRecordManager_save_def isRecentlySeeked_def truthy_def emit_def js_index_def Let_def
      noUpdates_def playing_status_def mapEpisodes_def ex_current_def ex_b720_def ex_a1080_def
      candidate_def bufTimers_def)

text \<open>
  Claim C1 fails on the source. The source \<open>cur\<close> is active and the stream stalls for 70 seconds:
  eight status ticks, ten seconds apart, all loaded, not playing and buffering at position
  90000 of 2400000, with no pause, no seek and no outro marker. The claim, the comment of
  line 620 (still buffering after 20 seconds: switch the source) and the branch of lines 668-672
  (switch at the third attempt) expect one invocation of \<open>handleVideoError\<close>. The timer is armed
  only while no buffering start is recorded (line 616), and that stays recorded as long as the
  stall lasts: the callback runs once, 20 seconds after the onset, with retry count 0, and only
  seeks back by 5 seconds (lines 653-661). No timer is pending afterwards, the retry count
  stays 1, and \<open>handleVideoError\<close> is never invoked: \<open>cur\<close> stays active and unmarked.
\<close>

theorem buffering_stall_never_fails_over:
  "list_all (\<lambda>tk. stalled (tk_status tk)) ex_long_ticks \<and>
   map tk_time ex_long_ticks =
     [1000000, 1010000, 1020000, 1030000, 1040000, 1050000, 1060000, 1070000] \<and>
   bufferingStartTime (player ex_world) = None \<and> timers ex_world = [] \<and>
   \<not> isUserPaused (player ex_world) \<and> lastSeekTime (player ex_world) = None \<and>
   outroStartTime (player ex_world) = None \<and>
   detail (detailStore ex_world) = Some ex_current \<and> effects ex_world = [] \<and>
   (let w1 = run ex_long_ticks ex_world
    in effects w1 = [SetPositionAsync 85000] \<and>
       videoErrorCalls w1 = 0 \<and>
       bufferingRetryCount (player w1) = 1 \<and>
       bufferingStartTime (player w1) = Some 1000000 \<and>
       bufTimers w1 = [] \<and>
       detail (detailStore w1) = Some ex_current \<and>
       failedSources (detailStore w1) = {})"
proof -
  have "videoErrorCalls (run ex_long_ticks ex_world) = 0"
    by (simp add: videoErrorCalls_def ex_long_run(1))
  then show ?thesis
    using ex_long_ticks_facts(1,2) ex_world_facts(1-7) ex_long_run by (simp add: Let_def)
qed

end
